theory Spec2Isabelle
  imports Main
begin

section \<open>The job-lifecycle orchestrator of the background service worker\<close>

text \<open>
  The background service worker polls a queue, opens one browser tab per job, and
  finalizes a job when the content script reports success or failure, when the job
  timer fires, or when the tab is closed. This theory embeds its handlers as functions
  from a state to a new state and the list of calls that leave the worker, in program
  order.

  Modelling decisions:
  \<^item> The three module-level maps \<open>activeJobs\<close>, \<open>jobTimeouts\<close> and
    \<open>tabClosureRetries\<close> and the keys of \<open>chrome.storage.local\<close> the handlers
    use are the fields of one state record. A key that is absent from storage is
    \<open>None\<close>.
  \<^item> Reads and writes of \<open>chrome.storage.local\<close> do not fail.
  \<^item> Everything else that is outside the worker (the queue backend, the tabs API, the
    content script, the clock, the timer id) answers through an environment record: one
    answer per call site of one handler run. A rejected promise is \<open>Inl msg\<close> (or
    \<open>Some msg\<close> where the call returns nothing), \<open>msg\<close> being the message of the
    thrown error.
  \<^item> JavaScript numbers are natural numbers or integers; the counters never reach the
    range where a double stops being exact.
  \<^item> A handler runs from start to end without another handler in between. Where a
    claim is about what another handler would see during an \<open>await\<close>, the state at
    that \<open>await\<close> is a function of its own.
  \<^item> Of a \<open>Logger\<close> call only the level is kept, so values that are read for a
    log line only (the job title, the attempt number) do not appear. The log lines that
    the queue client writes inside a request belong to the request's event.
  \<^item> \<open>Date.now()\<close> gives one value during one handler run.
\<close>

subsection \<open>Data\<close>

type_synonym tab_id = nat
type_synonym job_id = string

text \<open>\<open>Job\<close> of \<open>shared/types\<close>; the nested \<open>deviation\<close> object is flattened.\<close>

record Job =
  j_id :: job_id
  j_price :: int
  j_attempts :: nat
  j_title :: string
  j_deviationUrl :: string
  j_thumbnailUrl :: "string option"

datatype status = processing | completed | failed_status

record JobHistoryItem =
  h_id :: job_id
  h_title :: string
  h_url :: string
  h_thumbnailUrl :: "string option"
  h_status :: status
  h_timestamp :: nat
  h_price :: "int option"

record Stats =
  processed :: nat
  succeeded :: nat
  failed :: nat
  lastProcessedAt :: "nat option"
  currentJob :: "(job_id \<times> string) option"

record state =
  activeJobs :: "tab_id \<rightharpoonup> Job"
  jobTimeouts :: "tab_id \<rightharpoonup> nat"
  tabClosureRetries :: "job_id \<rightharpoonup> nat"
  stats :: "Stats option"
  jobHistory :: "JobHistoryItem list option"
  isRunning :: "bool option"
  apiKey :: "string option"
  apiUrl :: "string option"
  clientId :: "string option"

datatype log_level = DEBUG | INFO | SUCCESS | WARNING | ERROR

text \<open>The calls that leave the worker.\<close>

datatype event =
    Log log_level
  | SetTimeout tab_id
  | ClearTimeout nat
  | Sleep nat
  | GetNextJob string
  | CompleteJob job_id
  | FailJob job_id string
  | TabsCreate string
  | TabsGet tab_id
  | TabsRemove tab_id
  | SendPing tab_id
  | SendStartJob tab_id job_id

record env =
  now :: nat
  timeoutId :: nat
  getNextJob :: "string + Job option"
  completeJob :: "string option"
  failJob :: "string + bool"
  tabsCreate :: "string + tab_id option"
  tabsGet :: "nat \<Rightarrow> string + bool"
  sendPing :: "nat \<Rightarrow> string + bool"
  sendStartJob :: "string + bool"
  tabsRemove :: "string option"

definition MAX_TAB_CLOSURE_RETRIES :: nat where
  "MAX_TAB_CLOSURE_RETRIES = 3"

definition initialStats :: Stats where
  "initialStats = \<lparr>processed = 0, succeeded = 0, failed = 0,
     lastProcessedAt = None, currentJob = None\<rparr>"

text \<open>\<open>result[STORAGE_KEYS.STATS] || {processed: 0, succeeded: 0, failed: 0}\<close>\<close>

definition statsOrDefault :: "Stats option \<Rightarrow> Stats" where
  "statsOrDefault r = (case r of None \<Rightarrow> initialStats | Some st \<Rightarrow> st)"

text \<open>\<open>result[STORAGE_KEYS.JOB_HISTORY] || []\<close>\<close>

definition historyOrEmpty :: "JobHistoryItem list option \<Rightarrow> JobHistoryItem list" where
  "historyOrEmpty r = (case r of None \<Rightarrow> [] | Some h \<Rightarrow> h)"

text \<open>JavaScript truthiness of an optional string and an optional boolean.\<close>

definition truthyString :: "string option \<Rightarrow> bool" where
  "truthyString r = (case r of None \<Rightarrow> False | Some v \<Rightarrow> v \<noteq> [])"

definition truthyBool :: "bool option \<Rightarrow> bool" where
  "truthyBool r = (case r of None \<Rightarrow> False | Some v \<Rightarrow> v)"

text \<open>\<open>tabClosureRetries.get(job.id) || 0\<close>\<close>

definition numberOrZero :: "nat option \<Rightarrow> nat" where
  "numberOrZero r = (case r of None \<Rightarrow> 0 | Some v \<Rightarrow> v)"

subsection \<open>The job history\<close>

text \<open>
  \<open>addJobToHistory\<close>: \<open>history.unshift(historyItem)\<close>, then
  \<open>history.slice(0, 50)\<close>. The functions below work on the list; the handlers read
  it with \<open>historyOrEmpty\<close> and store the result.
\<close>

definition historyItem :: "Job \<Rightarrow> status \<Rightarrow> nat \<Rightarrow> JobHistoryItem" where
  "historyItem job st t = \<lparr>h_id = j_id job, h_title = j_title job,
     h_url = j_deviationUrl job, h_thumbnailUrl = j_thumbnailUrl job,
     h_status = st, h_timestamp = t, h_price = Some (j_price job)\<rparr>"

definition addJobToHistory :: "Job \<Rightarrow> status \<Rightarrow> nat \<Rightarrow> JobHistoryItem list \<Rightarrow> JobHistoryItem list" where
  "addJobToHistory job st t history = take 50 (historyItem job st t # history)"

text \<open>\<open>history.findIndex(item => item.id === jobId)\<close>; \<open>None\<close> is \<open>-1\<close>.\<close>

fun findIndex :: "job_id \<Rightarrow> JobHistoryItem list \<Rightarrow> nat option" where
  "findIndex jobId [] = None"
| "findIndex jobId (x # xs) =
     (if h_id x = jobId then Some 0
      else (case findIndex jobId xs of None \<Rightarrow> None | Some i \<Rightarrow> Some (Suc i)))"

definition updateJobInHistory :: "job_id \<Rightarrow> status \<Rightarrow> nat \<Rightarrow> JobHistoryItem list \<Rightarrow> JobHistoryItem list" where
  "updateJobInHistory jobId st t history =
     (case findIndex jobId history of
        None \<Rightarrow> history
      | Some i \<Rightarrow> history[i := (history ! i)\<lparr>h_status := st, h_timestamp := t\<rparr>])"

text \<open>
  The stored value after \<open>updateJobInHistory\<close>: the key is written only when the
  job was found.
\<close>

definition storeUpdatedHistory :: "job_id \<Rightarrow> status \<Rightarrow> nat \<Rightarrow> state \<Rightarrow> state" where
  "storeUpdatedHistory jobId st t s =
     (case findIndex jobId (historyOrEmpty (jobHistory s)) of
        None \<Rightarrow> s
      | Some i \<Rightarrow> s\<lparr>jobHistory :=
          Some (updateJobInHistory jobId st t (historyOrEmpty (jobHistory s)))\<rparr>)"

subsection \<open>Finalizing a job\<close>

text \<open>
  \<open>const timeoutId = jobTimeouts.get(tabId); if (timeoutId) { clearTimeout(timeoutId);
  jobTimeouts.delete(tabId); }\<close>
\<close>

definition clearJobTimeout :: "tab_id \<Rightarrow> state \<Rightarrow> state \<times> event list" where
  "clearJobTimeout tabId s =
     (case jobTimeouts s tabId of
        None \<Rightarrow> (s, [])
      | Some tm \<Rightarrow>
          (if tm \<noteq> 0
           then (s\<lparr>jobTimeouts := (jobTimeouts s)(tabId := None)\<rparr>, [ClearTimeout tm])
           else (s, [])))"

text \<open>
  \<open>handleJobSuccess\<close> up to \<open>await client.completeJob(jobId)\<close>: the state in
  which the report to the backend is awaited.
\<close>

definition handleJobSuccess_before_report :: "tab_id \<Rightarrow> state \<Rightarrow> state \<times> event list" where
  "handleJobSuccess_before_report tabId s =
     (case clearJobTimeout tabId s of
        (s1, ev1) \<Rightarrow> (s1, ev1 @ [Log SUCCESS, Log INFO]))"

definition handleJobSuccess :: "env \<Rightarrow> tab_id \<Rightarrow> job_id \<Rightarrow> state \<Rightarrow> state \<times> event list" where
  "handleJobSuccess e tabId jobId s =
     (case handleJobSuccess_before_report tabId s of
        (s1, ev1) \<Rightarrow>
          (case completeJob e of
             Some msg \<Rightarrow> (s1, ev1 @ [CompleteJob jobId, Log ERROR])
           | None \<Rightarrow>
               (let st = statsOrDefault (stats s1);
                    s2 = s1\<lparr>stats := Some (st\<lparr>processed := processed st + 1,
                                               succeeded := succeeded st + 1,
                                               lastProcessedAt := Some (now e),
                                               currentJob := None\<rparr>)\<rparr>;
                    s3 = storeUpdatedHistory jobId completed (now e) s2;
                    s4 = s3\<lparr>activeJobs := (activeJobs s3)(tabId := None),
                            tabClosureRetries := (tabClosureRetries s3)(jobId := None)\<rparr>;
                    ev2 = ev1 @ [CompleteJob jobId, Log INFO, Log INFO, TabsRemove tabId]
                in (case tabsRemove e of
                      Some msg \<Rightarrow> (s4, ev2 @ [Log ERROR])
                    | None \<Rightarrow> (s4, ev2)))))"

text \<open>
  \<open>handleJobFailure\<close> up to \<open>await client.failJob(jobId, errorMessage)\<close>. The
  tab id is \<open>None\<close> for \<open>null\<close>. In the handler itself \<open>Inl\<close> as the
  answer of \<open>failJob\<close> is a rejected request or an answer without a body, on which
  reading \<open>result.willRetry\<close> throws; both end in the \<open>catch\<close> block.
\<close>

definition handleJobFailure_before_report :: "tab_id option \<Rightarrow> job_id \<Rightarrow> state \<Rightarrow> state \<times> event list" where
  "handleJobFailure_before_report tabId jobId s =
     (case (case tabId of
              None \<Rightarrow> (s, [])
            | Some t \<Rightarrow>
                (case clearJobTimeout t s of
                   (s0, ev0) \<Rightarrow> (s0\<lparr>activeJobs := (activeJobs s0)(t := None)\<rparr>, ev0))) of
        (s1, ev1) \<Rightarrow>
          (s1\<lparr>tabClosureRetries := (tabClosureRetries s1)(jobId := None)\<rparr>,
           Log ERROR # ev1 @ [Log INFO]))"

definition handleJobFailure :: "env \<Rightarrow> tab_id option \<Rightarrow> job_id \<Rightarrow> string \<Rightarrow> state \<Rightarrow> state \<times> event list" where
  "handleJobFailure e tabId jobId errorMessage s =
     (case handleJobFailure_before_report tabId jobId s of
        (s1, ev1) \<Rightarrow>
          (case failJob e of
             Inl msg \<Rightarrow> (s1, ev1 @ [FailJob jobId errorMessage, Log ERROR])
           | Inr willRetry \<Rightarrow>
               (let st = statsOrDefault (stats s1);
                    s2 = s1\<lparr>stats := Some (st\<lparr>processed := processed st + 1,
                                               failed := failed st + 1,
                                               lastProcessedAt := Some (now e),
                                               currentJob := None\<rparr>)\<rparr>;
                    s3 = storeUpdatedHistory jobId failed_status (now e) s2;
                    ev2 = ev1 @ [FailJob jobId errorMessage,
                                 Log (if willRetry then INFO else WARNING)]
                in (case tabId of
                      None \<Rightarrow> (s3, ev2)
                    | Some t \<Rightarrow>
                        (s3\<lparr>activeJobs := (activeJobs s3)(t := None)\<rparr>,
                         ev2 @ [TabsRemove t])))))"

definition handleJobTimeout :: "env \<Rightarrow> tab_id \<Rightarrow> state \<Rightarrow> state \<times> event list" where
  "handleJobTimeout e tabId s =
     (case activeJobs s tabId of
        None \<Rightarrow> (s, [])
      | Some job \<Rightarrow>
          (case handleJobFailure e (Some tabId) (j_id job)
                  ''Job processing timed out after 2 minutes'' s of
             (s1, ev1) \<Rightarrow> (s1, Log WARNING # ev1)))"

subsection \<open>Dispatching a job\<close>

text \<open>
  \<open>waitForTabLoad\<close>: the loop \<open>for (attempt = 1; attempt <= 30; attempt++)\<close>
  with the attempts that are left as the recursion argument. The result is the calls
  made and the message of the error thrown, if any.
\<close>

fun waitForTabLoad :: "(nat \<Rightarrow> string + bool) \<Rightarrow> tab_id \<Rightarrow> nat \<Rightarrow> nat \<Rightarrow> event list \<times> string option" where
  "waitForTabLoad get tabId attempt 0 =
     ([], Some ''Tab loading timed out after 15 seconds'')"
| "waitForTabLoad get tabId attempt (Suc left) =
     (case get attempt of
        Inl msg \<Rightarrow> ([Sleep 500, TabsGet tabId], Some msg)
      | Inr complete \<Rightarrow>
          (if complete then ([Sleep 500, TabsGet tabId, Log INFO], None)
           else (case waitForTabLoad get tabId (Suc attempt) left of
                   (ev, r) \<Rightarrow> (Sleep 500 # TabsGet tabId # ev, r))))"

text \<open>
  \<open>waitForContentScript\<close>: a ping that throws is caught and logged, and the loop
  goes on, as it does when the answer is not ready.
\<close>

fun waitForContentScript :: "(nat \<Rightarrow> string + bool) \<Rightarrow> tab_id \<Rightarrow> nat \<Rightarrow> nat \<Rightarrow> event list \<times> string option" where
  "waitForContentScript ping tabId attempt 0 =
     ([], Some ''Content script did not become ready after 10 seconds'')"
| "waitForContentScript ping tabId attempt (Suc left) =
     (case ping attempt of
        Inl msg \<Rightarrow>
          (case waitForContentScript ping tabId (Suc attempt) left of
             (ev, r) \<Rightarrow> (Sleep 500 # SendPing tabId # Log DEBUG # ev, r))
      | Inr ready \<Rightarrow>
          (if ready then ([Sleep 500, SendPing tabId, Log INFO], None)
           else (case waitForContentScript ping tabId (Suc attempt) left of
                   (ev, r) \<Rightarrow> (Sleep 500 # SendPing tabId # ev, r))))"

text \<open>
  The part of \<open>processJob\<close> after the timer is set: waiting for the tab, waiting
  for the content script, and sending \<open>START_JOB\<close>. It changes no state.
\<close>

definition startJobInTab :: "env \<Rightarrow> Job \<Rightarrow> tab_id \<Rightarrow> event list \<times> string option" where
  "startJobInTab e job tabId =
     (case waitForTabLoad (tabsGet e) tabId 1 30 of
        (ev2, Some msg) \<Rightarrow> (ev2, Some msg)
      | (ev2, None) \<Rightarrow>
          (case waitForContentScript (sendPing e) tabId 1 20 of
             (ev3, Some msg) \<Rightarrow> (ev2 @ ev3, Some msg)
           | (ev3, None) \<Rightarrow>
               (case sendStartJob e of
                  Inl msg \<Rightarrow>
                    (ev2 @ ev3 @ [Log INFO, SendStartJob tabId (j_id job)], Some msg)
                | Inr received \<Rightarrow>
                    (if received
                     then (ev2 @ ev3 @ [Log INFO, SendStartJob tabId (j_id job), Log SUCCESS],
                           None)
                     else (ev2 @ ev3 @ [Log INFO, SendStartJob tabId (j_id job)],
                           Some ''Content script did not acknowledge job message'')))))"

text \<open>
  The \<open>try\<close> block of \<open>processJob\<close>: the state, the calls, and the message
  of the error that ends the block, if one is thrown.
\<close>

definition markProcessing :: "env \<Rightarrow> Job \<Rightarrow> state \<Rightarrow> state" where
  "markProcessing e job s =
     s\<lparr>stats := Some ((statsOrDefault (stats s))\<lparr>currentJob := Some (j_id job, j_title job)\<rparr>),
       jobHistory := Some (addJobToHistory job processing (now e) (historyOrEmpty (jobHistory s)))\<rparr>"

definition processJob_try :: "env \<Rightarrow> Job \<Rightarrow> state \<Rightarrow> state \<times> event list \<times> string option" where
  "processJob_try e job s =
     (let s2 = markProcessing e job s;
          ev0 = [Log INFO, TabsCreate (j_deviationUrl job)]
      in (case tabsCreate e of
            Inl msg \<Rightarrow> (s2, ev0, Some msg)
          | Inr None \<Rightarrow> (s2, ev0, Some ''Failed to create tab'')
          | Inr (Some tabId) \<Rightarrow>
              (if tabId = 0 then (s2, ev0, Some ''Failed to create tab'')
               else
                 (case startJobInTab e job tabId of
                    (ev2, r) \<Rightarrow>
                      (s2\<lparr>activeJobs := (activeJobs s2)(tabId \<mapsto> job),
                          jobTimeouts := (jobTimeouts s2)(tabId \<mapsto> timeoutId e)\<rparr>,
                       ev0 @ [Log SUCCESS, SetTimeout tabId] @ ev2, r)))))"

text \<open>\<open>processJob\<close>: the \<open>catch\<close> block reports the failure with a null tab id.\<close>

definition processJob :: "env \<Rightarrow> Job \<Rightarrow> state \<Rightarrow> state \<times> event list" where
  "processJob e job s =
     (case processJob_try e job s of
        (s1, ev1, None) \<Rightarrow> (s1, ev1)
      | (s1, ev1, Some message) \<Rightarrow>
          (case handleJobFailure e None (j_id job) message s1 of
             (s2, ev2) \<Rightarrow> (s2, ev1 @ Log ERROR # ev2)))"

subsection \<open>The poll tick\<close>

definition pollForJob :: "env \<Rightarrow> state \<Rightarrow> state \<times> event list" where
  "pollForJob e s =
     (if \<not> truthyBool (isRunning s) then (s, [])
      else if \<not> truthyString (apiKey s) \<or> \<not> truthyString (apiUrl s) then (s, [Log WARNING])
      else
        (case clientId s of
           None \<Rightarrow> (s, [Log ERROR])
         | Some cid \<Rightarrow>
             (if cid = [] then (s, [Log ERROR])
              else
                (case getNextJob e of
                   Inl msg \<Rightarrow> (s, [Log INFO, GetNextJob cid, Log ERROR])
                 | Inr None \<Rightarrow> (s, [Log INFO, GetNextJob cid, Log INFO])
                 | Inr (Some job) \<Rightarrow>
                     (case processJob e job s of
                        (s1, ev1) \<Rightarrow> (s1, Log INFO # GetNextJob cid # Log SUCCESS # ev1))))))"

subsection \<open>The listeners\<close>

text \<open>
  \<open>chrome.tabs.onRemoved\<close>. In the retry branch \<open>processJob\<close> catches every
  error itself, so the \<open>.catch\<close> handler on its promise never runs.
\<close>

definition onRemoved :: "env \<Rightarrow> tab_id \<Rightarrow> state \<Rightarrow> state \<times> event list" where
  "onRemoved e tabId s =
     (case activeJobs s tabId of
        None \<Rightarrow> (s, [])
      | Some job \<Rightarrow>
          (case clearJobTimeout tabId (s\<lparr>activeJobs := (activeJobs s)(tabId := None)\<rparr>) of
             (s1, ev1) \<Rightarrow>
               (let retryCount = numberOrZero (tabClosureRetries s1 (j_id job))
                in if retryCount < MAX_TAB_CLOSURE_RETRIES
                   then
                     (let s2 = s1\<lparr>tabClosureRetries :=
                                 (tabClosureRetries s1)(j_id job \<mapsto> retryCount + 1)\<rparr>
                      in (case processJob e job s2 of
                            (s3, ev3) \<Rightarrow> (s3, ev1 @ [Log WARNING, Sleep 2000] @ ev3)))
                   else
                     (let s2 = s1\<lparr>tabClosureRetries := (tabClosureRetries s1)(j_id job := None)\<rparr>
                      in (case handleJobFailure e None (j_id job) ''Tab closed 3 times'' s2 of
                            (s3, ev3) \<Rightarrow> (s3, ev1 @ Log ERROR # ev3))))))"

text \<open>
  \<open>chrome.runtime.onMessage\<close> for the content script's messages; the second
  argument is \<open>sender.tab?.id\<close>.
\<close>

datatype message = JOB_SUCCESS job_id | JOB_FAILED job_id string | OtherMessage

definition onMessage :: "env \<Rightarrow> message \<Rightarrow> tab_id option \<Rightarrow> state \<Rightarrow> state \<times> event list" where
  "onMessage e m senderTab s =
     (case m of
        JOB_SUCCESS jobId \<Rightarrow>
          (case senderTab of
             None \<Rightarrow> (s, [])
           | Some tabId \<Rightarrow> if tabId \<noteq> 0 then handleJobSuccess e tabId jobId s else (s, []))
      | JOB_FAILED jobId err \<Rightarrow>
          (case senderTab of
             None \<Rightarrow> handleJobFailure e None jobId err s
           | Some tabId \<Rightarrow>
               handleJobFailure e (if tabId \<noteq> 0 then Some tabId else None) jobId err s)
      | OtherMessage \<Rightarrow> (s, []))"

text \<open>\<open>chrome.runtime.onInstalled\<close>, as far as the stats record goes.\<close>

definition onInstalled :: "state \<Rightarrow> state" where
  "onInstalled s = (case stats s of None \<Rightarrow> s\<lparr>stats := Some initialStats\<rparr> | Some st \<Rightarrow> s)"

section \<open>Observing a run\<close>

text \<open>
  The calls to the queue backend in a list of events, and the tabs opened. A job is
  dispatched by opening a tab for it, so the \<open>TabsCreate\<close> events count the
  dispatches.
\<close>

fun isBackendCall :: "event \<Rightarrow> bool" where
  "isBackendCall (GetNextJob c) = True"
| "isBackendCall (CompleteJob j) = True"
| "isBackendCall (FailJob j m) = True"
| "isBackendCall ev = False"

fun isTabsCreate :: "event \<Rightarrow> bool" where
  "isTabsCreate (TabsCreate u) = True"
| "isTabsCreate ev = False"

fun isLog :: "event \<Rightarrow> bool" where
  "isLog (Log l) = True"
| "isLog ev = False"

definition nonLog :: "event list \<Rightarrow> event list" where
  "nonLog tr = filter (\<lambda>ev. \<not> isLog ev) tr"

text \<open>The three counters of the stats record as the handlers read it.\<close>

definition counters :: "state \<Rightarrow> nat \<times> nat \<times> nat" where
  "counters s = (processed (statsOrDefault (stats s)), succeeded (statsOrDefault (stats s)),
     failed (statsOrDefault (stats s)))"

definition statsInvariant :: "state \<Rightarrow> bool" where
  "statsInvariant s \<longleftrightarrow>
     processed (statsOrDefault (stats s)) =
       succeeded (statsOrDefault (stats s)) + failed (statsOrDefault (stats s))"

definition historyIds :: "state \<Rightarrow> job_id list" where
  "historyIds s = map h_id (historyOrEmpty (jobHistory s))"

definition historyStatuses :: "state \<Rightarrow> status list" where
  "historyStatuses s = map h_status (historyOrEmpty (jobHistory s))"

text \<open>
  A dispatch is delivered to tab \<open>tabId\<close> when \<open>chrome.tabs.create\<close> returns
  that tab, the tab loads, the content script answers a ping, and \<open>START_JOB\<close> is
  acknowledged: the \<open>try\<close> block of \<open>processJob\<close> ends without an error.
\<close>

definition delivered :: "env \<Rightarrow> Job \<Rightarrow> tab_id \<Rightarrow> bool" where
  "delivered e job tabId \<longleftrightarrow>
     tabsCreate e = Inr (Some tabId) \<and> tabId \<noteq> 0 \<and> snd (startJobInTab e job tabId) = None"

text \<open>Sequences of history operations.\<close>

datatype history_op = AddJob Job status nat | UpdateJob job_id status nat

fun applyHistoryOp :: "JobHistoryItem list \<Rightarrow> history_op \<Rightarrow> JobHistoryItem list" where
  "applyHistoryOp h (AddJob job st t) = addJobToHistory job st t h"
| "applyHistoryOp h (UpdateJob jobId st t) = updateJobInHistory jobId st t h"

definition runHistoryOps :: "history_op list \<Rightarrow> JobHistoryItem list \<Rightarrow> JobHistoryItem list" where
  "runHistoryOps ops h = foldl applyHistoryOp h ops"

text \<open>
  Sequences of events of the worker: each event comes with the environment that answers
  the handler's calls.
\<close>

datatype input =
    Installed
  | Poll
  | Message message "tab_id option"
  | Timeout tab_id
  | TabRemoved tab_id

fun step :: "state \<Rightarrow> env \<times> input \<Rightarrow> state" where
  "step s (e, Installed) = onInstalled s"
| "step s (e, Poll) = fst (pollForJob e s)"
| "step s (e, Message m senderTab) = fst (onMessage e m senderTab s)"
| "step s (e, Timeout tabId) = fst (handleJobTimeout e tabId s)"
| "step s (e, TabRemoved tabId) = fst (onRemoved e tabId s)"

definition run :: "state \<Rightarrow> (env \<times> input) list \<Rightarrow> state" where
  "run s inputs = foldl step s inputs"

section \<open>Example states\<close>

definition job1 :: Job where
  "job1 = \<lparr>j_id = ''j1'', j_price = 500, j_attempts = 0, j_title = ''Sunset'',
     j_deviationUrl = ''https://www.deviantart.com/a/art/Sunset-1'', j_thumbnailUrl = None\<rparr>"

definition job2 :: Job where
  "job2 = \<lparr>j_id = ''j2'', j_price = 1200, j_attempts = 1, j_title = ''Harbour'',
     j_deviationUrl = ''https://www.deviantart.com/a/art/Harbour-2'', j_thumbnailUrl = None\<rparr>"

text \<open>The state after installation and configuration, with polling switched on.\<close>

definition installedState :: state where
  "installedState = \<lparr>activeJobs = Map.empty, jobTimeouts = Map.empty,
     tabClosureRetries = Map.empty, stats = Some initialStats, jobHistory = None,
     isRunning = Some True, apiKey = Some ''key'', apiUrl = Some ''http://localhost:3000'',
     clientId = Some ''client-1''\<rparr>"

text \<open>An environment in which every call succeeds at once and the new tab is \<open>t\<close>.\<close>

definition okEnv :: "tab_id \<Rightarrow> env" where
  "okEnv t = \<lparr>now = 1000, timeoutId = 41, getNextJob = Inr (Some job1), completeJob = None,
     failJob = Inr True, tabsCreate = Inr (Some t), tabsGet = (\<lambda>attempt. Inr True),
     sendPing = (\<lambda>attempt. Inr True), sendStartJob = Inr True, tabsRemove = None\<rparr>"

text \<open>The same, but both reports to the backend are rejected.\<close>

definition throwEnv :: env where
  "throwEnv = (okEnv 7)\<lparr>completeJob := Some ''Network error: Failed to connect'',
                         failJob := Inl ''Network error: Failed to connect''\<rparr>"

text \<open>\<open>job1\<close> dispatched to tab 7, then finalized by a success message.\<close>

definition dispatchedState :: state where
  "dispatchedState = fst (processJob (okEnv 7) job1 installedState)"

definition finalizedState :: state where
  "finalizedState = fst (handleJobSuccess (okEnv 7) 7 ''j1'' dispatchedState)"

text \<open>
  \<open>job1\<close> dispatched to tab 7, and the tab of each dispatch closed in turn: tab 7,
  then tab 8, then tab 9.
\<close>

definition crashedOnce :: state where
  "crashedOnce = run dispatchedState [(okEnv 8, TabRemoved 7)]"

definition crashedTwice :: state where
  "crashedTwice = run dispatchedState [(okEnv 8, TabRemoved 7), (okEnv 9, TabRemoved 8)]"

definition crashedThrice :: state where
  "crashedThrice = run dispatchedState
     [(okEnv 8, TabRemoved 7), (okEnv 9, TabRemoved 8), (okEnv 10, TabRemoved 9)]"

definition fullHistory :: "JobHistoryItem list" where
  "fullHistory = replicate 50 (historyItem job1 processing 5)"


text \<open>A history in which \<open>j1\<close> has two records, behind a record of \<open>j2\<close>.\<close>

definition mixedHistory :: "JobHistoryItem list" where
  "mixedHistory = [historyItem job2 processing 7, historyItem job1 processing 5,
     historyItem job1 processing 3]"

section \<open>Properties of the handlers\<close>

subsection \<open>The history functions\<close>

lemma length_updateJobInHistory: "length (updateJobInHistory jobId st t h) = length h"
  by (simp add: updateJobInHistory_def split: option.splits)

lemma length_addJobToHistory: "length (addJobToHistory job st t h) = min 50 (Suc (length h))"
  by (simp add: addJobToHistory_def)

lemma length_applyHistoryOp: "length h \<le> 50 \<Longrightarrow> length (applyHistoryOp h op) \<le> 50"
  by (cases op) (simp_all add: length_updateJobInHistory length_addJobToHistory)

lemma length_foldl_applyHistoryOp: "length h \<le> 50 \<Longrightarrow> length (foldl applyHistoryOp h ops) \<le> 50"
  by (induction ops arbitrary: h) (simp_all add: length_applyHistoryOp)

lemma findIndex_Some: "findIndex jobId h = Some i \<Longrightarrow> i < length h \<and> h_id (h ! i) = jobId \<and> (\<forall>k<i. h_id (h ! k) \<noteq> jobId)"
proof (induction h arbitrary: i)
  case Nil
  then show ?case by simp
next
  case (Cons x xs)
  show ?case
  proof (cases "h_id x = jobId")
    case True
    with Cons.prems show ?thesis by simp
  next
    case False
    with Cons.prems obtain j where j: "findIndex jobId xs = Some j" "i = Suc j"
      by (auto split: option.splits)
    from Cons.IH[OF j(1)] False j(2) show ?thesis
      by (auto simp: nth_Cons split: nat.splits)
  qed
qed

lemma take_49_butlast: "length h = 50 \<Longrightarrow> take 49 h = butlast h"
  by (simp add: butlast_conv_take)

lemma map_h_id_update: "map h_id (updateJobInHistory jobId st t h) = map h_id h"
proof (cases "findIndex jobId h")
  case None
  then show ?thesis by (simp add: updateJobInHistory_def)
next
  case (Some i)
  then have "i < length h" using findIndex_Some by blast
  then have "(map h_id h)[i := h_id (h ! i)] = map h_id h"
    by (metis list_update_id nth_map)
  with Some show ?thesis by (simp add: updateJobInHistory_def map_update)
qed

subsection \<open>What the finalize handlers change and call\<close>

lemma clearJobTimeout_frame:
  "activeJobs (fst (clearJobTimeout t s)) = activeJobs s"
  "tabClosureRetries (fst (clearJobTimeout t s)) = tabClosureRetries s"
  "stats (fst (clearJobTimeout t s)) = stats s"
  "jobHistory (fst (clearJobTimeout t s)) = jobHistory s"
  "jobTimeouts (fst (clearJobTimeout t s)) t' = (if t' = t \<and> jobTimeouts s t \<noteq> Some 0 then None else jobTimeouts s t')"
  by (auto simp: clearJobTimeout_def split: option.splits)

lemma clearJobTimeout_events:
  "filter isBackendCall (snd (clearJobTimeout t s)) = []"
  "filter isTabsCreate (snd (clearJobTimeout t s)) = []"
  by (simp_all add: clearJobTimeout_def split: option.splits)

lemma storeUpdatedHistory_frame:
  "activeJobs (storeUpdatedHistory j st t s) = activeJobs s"
  "tabClosureRetries (storeUpdatedHistory j st t s) = tabClosureRetries s"
  "stats (storeUpdatedHistory j st t s) = stats s"
  "jobTimeouts (storeUpdatedHistory j st t s) = jobTimeouts s"
  by (simp_all add: storeUpdatedHistory_def split: option.splits)

lemma handleJobSuccess_calls:
  "filter isBackendCall (snd (handleJobSuccess e tabId jobId s)) = [CompleteJob jobId]"
  "filter isTabsCreate (snd (handleJobSuccess e tabId jobId s)) = []"
  using clearJobTimeout_events[of tabId s]
  by (auto simp: handleJobSuccess_def handleJobSuccess_before_report_def Let_def
      split: prod.splits option.splits)

lemma handleJobFailure_calls:
  "filter isBackendCall (snd (handleJobFailure e tid jobId msg s)) = [FailJob jobId msg]"
  "filter isTabsCreate (snd (handleJobFailure e tid jobId msg s)) = []"
proof -
  have a: "filter isBackendCall (snd (handleJobFailure_before_report tid jobId s)) = []"
      "filter isTabsCreate (snd (handleJobFailure_before_report tid jobId s)) = []"
    using clearJobTimeout_events
    by (auto simp: handleJobFailure_before_report_def split: prod.splits option.splits)
       (metis snd_conv)+
  show "filter isBackendCall (snd (handleJobFailure e tid jobId msg s)) = [FailJob jobId msg]"
    using a(1) by (auto simp: handleJobFailure_def Let_def split: prod.splits option.splits sum.splits)
  show "filter isTabsCreate (snd (handleJobFailure e tid jobId msg s)) = []"
    using a(2) by (auto simp: handleJobFailure_def Let_def split: prod.splits option.splits sum.splits)
qed

lemma handleJobSuccess_stats:
  "stats (fst (handleJobSuccess e tabId jobId s)) =
     (case completeJob e of
        Some msg \<Rightarrow> stats s
      | None \<Rightarrow> Some ((statsOrDefault (stats s))\<lparr>processed := processed (statsOrDefault (stats s)) + 1,
                    succeeded := succeeded (statsOrDefault (stats s)) + 1,
                    lastProcessedAt := Some (now e), currentJob := None\<rparr>))"
  using clearJobTimeout_frame(3)[of tabId s]
  by (auto simp: handleJobSuccess_def handleJobSuccess_before_report_def Let_def storeUpdatedHistory_frame
      split: prod.splits option.splits)

lemma handleJobFailure_before_report_frame:
  "stats (fst (handleJobFailure_before_report tid jobId s)) = stats s"
  "jobHistory (fst (handleJobFailure_before_report tid jobId s)) = jobHistory s"
  using clearJobTimeout_frame(3,4)
  by (auto simp: handleJobFailure_before_report_def split: prod.splits option.splits)
     (metis fst_conv)+

lemma handleJobFailure_stats:
  "stats (fst (handleJobFailure e tid jobId msg s)) =
     (case failJob e of
        Inl m \<Rightarrow> stats s
      | Inr w \<Rightarrow> Some ((statsOrDefault (stats s))\<lparr>processed := processed (statsOrDefault (stats s)) + 1,
                    failed := failed (statsOrDefault (stats s)) + 1,
                    lastProcessedAt := Some (now e), currentJob := None\<rparr>))"
  using handleJobFailure_before_report_frame(1)[of tid jobId s]
  by (auto simp: handleJobFailure_def Let_def storeUpdatedHistory_frame
      split: prod.splits option.splits sum.splits)

subsection \<open>What a dispatch changes and calls\<close>

lemma waitForTabLoad_no_backend:
  "filter isBackendCall (fst (waitForTabLoad g t a n)) = []"
  by (induction g t a n rule: waitForTabLoad.induct) (auto split: sum.splits prod.splits)

lemma waitForTabLoad_no_create:
  "filter isTabsCreate (fst (waitForTabLoad g t a n)) = []"
  by (induction g t a n rule: waitForTabLoad.induct) (auto split: sum.splits prod.splits)

lemma waitForContentScript_no_backend:
  "filter isBackendCall (fst (waitForContentScript g t a n)) = []"
  by (induction g t a n rule: waitForContentScript.induct) (auto split: sum.splits prod.splits)

lemma waitForContentScript_no_create:
  "filter isTabsCreate (fst (waitForContentScript g t a n)) = []"
  by (induction g t a n rule: waitForContentScript.induct) (auto split: sum.splits prod.splits)

lemma startJobInTab_no_backend:
  "filter isBackendCall (fst (startJobInTab e job t)) = []"
proof -
  obtain ev2 r2 where w: "waitForTabLoad (tabsGet e) t 1 30 = (ev2, r2)" by (cases "waitForTabLoad (tabsGet e) t 1 30")
  obtain ev3 r3 where c: "waitForContentScript (sendPing e) t 1 20 = (ev3, r3)" by (cases "waitForContentScript (sendPing e) t 1 20")
  have a: "filter isBackendCall ev2 = []" using waitForTabLoad_no_backend[of "tabsGet e" t 1 30] w by simp
  have b: "filter isBackendCall ev3 = []" using waitForContentScript_no_backend[of "sendPing e" t 1 20] c by simp
  show ?thesis
    unfolding startJobInTab_def w c
    by (simp add: a b split: option.splits sum.splits)
qed

lemma startJobInTab_no_create:
  "filter isTabsCreate (fst (startJobInTab e job t)) = []"
proof -
  obtain ev2 r2 where w: "waitForTabLoad (tabsGet e) t 1 30 = (ev2, r2)" by (cases "waitForTabLoad (tabsGet e) t 1 30")
  obtain ev3 r3 where c: "waitForContentScript (sendPing e) t 1 20 = (ev3, r3)" by (cases "waitForContentScript (sendPing e) t 1 20")
  have a: "filter isTabsCreate ev2 = []" using waitForTabLoad_no_create[of "tabsGet e" t 1 30] w by simp
  have b: "filter isTabsCreate ev3 = []" using waitForContentScript_no_create[of "sendPing e" t 1 20] c by simp
  show ?thesis
    unfolding startJobInTab_def w c
    by (simp add: a b split: option.splits sum.splits)
qed

lemma processJob_try_no_backend:
  "filter isBackendCall (fst (snd (processJob_try e job s))) = []"
proof (cases "tabsCreate e")
  case (Inl msg)
  then show ?thesis by (simp add: processJob_try_def Let_def)
next
  case (Inr r)
  show ?thesis
  proof (cases r)
    case None
    with Inr show ?thesis by (simp add: processJob_try_def Let_def)
  next
    case (Some t)
    obtain ev2 r2 where w: "startJobInTab e job t = (ev2, r2)" by (cases "startJobInTab e job t")
    have "filter isBackendCall ev2 = []" using startJobInTab_no_backend[of e job t] w by simp
    with Inr Some w show ?thesis by (simp add: processJob_try_def Let_def)
  qed
qed

lemma processJob_try_one_create:
  "filter isTabsCreate (fst (snd (processJob_try e job s))) = [TabsCreate (j_deviationUrl job)]"
proof (cases "tabsCreate e")
  case (Inl msg)
  then show ?thesis by (simp add: processJob_try_def Let_def)
next
  case (Inr r)
  show ?thesis
  proof (cases r)
    case None
    with Inr show ?thesis by (simp add: processJob_try_def Let_def)
  next
    case (Some t)
    obtain ev2 r2 where w: "startJobInTab e job t = (ev2, r2)" by (cases "startJobInTab e job t")
    have "filter isTabsCreate ev2 = []" using startJobInTab_no_create[of e job t] w by simp
    with Inr Some w show ?thesis by (simp add: processJob_try_def Let_def)
  qed
qed

lemma processJob_one_create:
  "filter isTabsCreate (snd (processJob e job s)) = [TabsCreate (j_deviationUrl job)]"
proof -
  obtain s1 ev1 r where t: "processJob_try e job s = (s1, ev1, r)" by (cases "processJob_try e job s")
  have a: "filter isTabsCreate ev1 = [TabsCreate (j_deviationUrl job)]"
    using processJob_try_one_create[of e job s] t by simp
  show ?thesis
  proof (cases r)
    case None
    with t a show ?thesis by (simp add: processJob_def)
  next
    case (Some msg)
    obtain s2 ev2 where f: "handleJobFailure e None (j_id job) msg s1 = (s2, ev2)"
      by (cases "handleJobFailure e None (j_id job) msg s1")
    have "filter isTabsCreate ev2 = []" using handleJobFailure_calls(2)[of e None "j_id job" msg s1] f by simp
    with t a Some f show ?thesis by (simp add: processJob_def)
  qed
qed

lemma processJob_backend:
  "filter isBackendCall (snd (processJob e job s)) =
     (case snd (snd (processJob_try e job s)) of
        None \<Rightarrow> []
      | Some msg \<Rightarrow> [FailJob (j_id job) msg])"
proof -
  obtain s1 ev1 r where t: "processJob_try e job s = (s1, ev1, r)" by (cases "processJob_try e job s")
  have a: "filter isBackendCall ev1 = []"
    using processJob_try_no_backend[of e job s] t by simp
  show ?thesis
  proof (cases r)
    case None
    with t a show ?thesis by (simp add: processJob_def)
  next
    case (Some msg)
    obtain s2 ev2 where f: "handleJobFailure e None (j_id job) msg s1 = (s2, ev2)"
      by (cases "handleJobFailure e None (j_id job) msg s1")
    have "filter isBackendCall ev2 = [FailJob (j_id job) msg]"
      using handleJobFailure_calls(1)[of e None "j_id job" msg s1] f by simp
    with t a Some f show ?thesis by (simp add: processJob_def)
  qed
qed

lemma markProcessing_frame:
  "activeJobs (markProcessing e job s) = activeJobs s"
  "tabClosureRetries (markProcessing e job s) = tabClosureRetries s"
  "jobTimeouts (markProcessing e job s) = jobTimeouts s"
  "counters (markProcessing e job s) = counters s"
  by (simp_all add: markProcessing_def counters_def statsOrDefault_def)

lemma processJob_try_delivered:
  assumes "delivered e job t"
  shows "processJob_try e job s =
     ((markProcessing e job s)\<lparr>activeJobs := (activeJobs s)(t \<mapsto> job),
         jobTimeouts := (jobTimeouts s)(t \<mapsto> timeoutId e)\<rparr>,
      [Log INFO, TabsCreate (j_deviationUrl job), Log SUCCESS, SetTimeout t]
        @ fst (startJobInTab e job t), None)"
proof -
  obtain ev2 where w: "startJobInTab e job t = (ev2, None)"
    using assms by (cases "startJobInTab e job t") (simp add: delivered_def)
  from assms have c: "tabsCreate e = Inr (Some t)" "t \<noteq> 0" by (simp_all add: delivered_def)
  show ?thesis by (simp add: processJob_try_def Let_def c w markProcessing_frame)
qed

lemma processJob_delivered:
  assumes "delivered e job t"
  shows "processJob e job s =
     ((markProcessing e job s)\<lparr>activeJobs := (activeJobs s)(t \<mapsto> job),
         jobTimeouts := (jobTimeouts s)(t \<mapsto> timeoutId e)\<rparr>,
      [Log INFO, TabsCreate (j_deviationUrl job), Log SUCCESS, SetTimeout t]
        @ fst (startJobInTab e job t))"
  by (simp add: processJob_def processJob_try_delivered[OF assms])

subsection \<open>The two branches of the tab-removal listener\<close>

lemma onRemoved_retry:
  assumes a: "activeJobs s tabId = Some job"
    and b: "numberOrZero (tabClosureRetries s (j_id job)) < MAX_TAB_CLOSURE_RETRIES"
  obtains s2 pre where
    "onRemoved e tabId s =
       (fst (processJob e job s2), pre @ [Log WARNING, Sleep 2000] @ snd (processJob e job s2))"
    "stats s2 = stats s" "jobHistory s2 = jobHistory s"
    "tabClosureRetries s2 =
       (tabClosureRetries s)(j_id job \<mapsto> numberOrZero (tabClosureRetries s (j_id job)) + 1)"
    "activeJobs s2 = (activeJobs s)(tabId := None)"
    "filter isBackendCall pre = []" "filter isTabsCreate pre = []"
proof -
  let ?s0 = "s\<lparr>activeJobs := (activeJobs s)(tabId := None)\<rparr>"
  obtain s1 ev1 where c: "clearJobTimeout tabId ?s0 = (s1, ev1)"
    by (cases "clearJobTimeout tabId ?s0")
  have f: "activeJobs s1 = (activeJobs s)(tabId := None)" "tabClosureRetries s1 = tabClosureRetries s"
      "stats s1 = stats s" "jobHistory s1 = jobHistory s"
    using clearJobTimeout_frame(1-4)[of tabId ?s0] c by simp_all
  have g: "filter isBackendCall ev1 = []" "filter isTabsCreate ev1 = []"
    using clearJobTimeout_events[of tabId ?s0] c by simp_all
  let ?s2 = "s1\<lparr>tabClosureRetries :=
      (tabClosureRetries s1)(j_id job \<mapsto> numberOrZero (tabClosureRetries s1 (j_id job)) + 1)\<rparr>"
  obtain s3 ev3 where p: "processJob e job ?s2 = (s3, ev3)" by (cases "processJob e job ?s2")
  have "onRemoved e tabId s = (s3, ev1 @ [Log WARNING, Sleep 2000] @ ev3)"
    using a b p unfolding onRemoved_def c by (simp add: Let_def f)
  then have "onRemoved e tabId s =
       (fst (processJob e job ?s2), ev1 @ [Log WARNING, Sleep 2000] @ snd (processJob e job ?s2))"
    using p by simp
  moreover have "stats ?s2 = stats s" "jobHistory ?s2 = jobHistory s"
    "tabClosureRetries ?s2 =
       (tabClosureRetries s)(j_id job \<mapsto> numberOrZero (tabClosureRetries s (j_id job)) + 1)"
    "activeJobs ?s2 = (activeJobs s)(tabId := None)"
    by (simp_all add: f)
  ultimately show thesis using that g by blast
qed

lemma handleJobFailure_None_frame:
  "activeJobs (fst (handleJobFailure e None jobId msg s)) = activeJobs s"
  "tabClosureRetries (fst (handleJobFailure e None jobId msg s)) = (tabClosureRetries s)(jobId := None)"
  by (simp_all add: handleJobFailure_def handleJobFailure_before_report_def Let_def
      storeUpdatedHistory_frame split: sum.splits)

lemma onRemoved_ceiling:
  assumes a: "activeJobs s tabId = Some job"
    and b: "MAX_TAB_CLOSURE_RETRIES \<le> numberOrZero (tabClosureRetries s (j_id job))"
  shows "tabClosureRetries (fst (onRemoved e tabId s)) (j_id job) = None"
    and "activeJobs (fst (onRemoved e tabId s)) tabId = None"
    and "filter isBackendCall (snd (onRemoved e tabId s)) = [FailJob (j_id job) ''Tab closed 3 times'']"
    and "filter isTabsCreate (snd (onRemoved e tabId s)) = []"
proof -
  let ?s0 = "s\<lparr>activeJobs := (activeJobs s)(tabId := None)\<rparr>"
  obtain s1 ev1 where c: "clearJobTimeout tabId ?s0 = (s1, ev1)"
    by (cases "clearJobTimeout tabId ?s0")
  have f: "activeJobs s1 = (activeJobs s)(tabId := None)" "tabClosureRetries s1 = tabClosureRetries s"
    using clearJobTimeout_frame(1-2)[of tabId ?s0] c by simp_all
  have g: "filter isBackendCall ev1 = []" "filter isTabsCreate ev1 = []"
    using clearJobTimeout_events[of tabId ?s0] c by simp_all
  let ?s2 = "s1\<lparr>tabClosureRetries := (tabClosureRetries s1)(j_id job := None)\<rparr>"
  obtain s3 ev3 where p: "handleJobFailure e None (j_id job) ''Tab closed 3 times'' ?s2 = (s3, ev3)"
    by (cases "handleJobFailure e None (j_id job) ''Tab closed 3 times'' ?s2")
  have r: "onRemoved e tabId s = (s3, ev1 @ Log ERROR # ev3)"
    using a b p unfolding onRemoved_def c by (simp add: Let_def f)
  have h: "activeJobs s3 = activeJobs ?s2" "tabClosureRetries s3 = (tabClosureRetries ?s2)(j_id job := None)"
    using handleJobFailure_None_frame[of e "j_id job" "''Tab closed 3 times''" ?s2] p by simp_all
  have k: "filter isBackendCall ev3 = [FailJob (j_id job) ''Tab closed 3 times'']"
      "filter isTabsCreate ev3 = []"
    using handleJobFailure_calls[of e None "j_id job" "''Tab closed 3 times''" ?s2] p by simp_all
  show "tabClosureRetries (fst (onRemoved e tabId s)) (j_id job) = None" by (simp add: r h)
  show "activeJobs (fst (onRemoved e tabId s)) tabId = None" by (simp add: r h f)
  show "filter isBackendCall (snd (onRemoved e tabId s)) = [FailJob (j_id job) ''Tab closed 3 times'']"
    by (simp add: r g k)
  show "filter isTabsCreate (snd (onRemoved e tabId s)) = []" by (simp add: r g k)
qed

lemma onRemoved_retry_delivered:
  assumes a: "activeJobs s tabId = Some job"
    and b: "numberOrZero (tabClosureRetries s (j_id job)) < MAX_TAB_CLOSURE_RETRIES"
    and d: "delivered e job t"
  shows "activeJobs (fst (onRemoved e tabId s)) t = Some job"
    and "tabClosureRetries (fst (onRemoved e tabId s)) (j_id job) =
           Some (numberOrZero (tabClosureRetries s (j_id job)) + 1)"
    and "filter isBackendCall (snd (onRemoved e tabId s)) = []"
    and "filter isTabsCreate (snd (onRemoved e tabId s)) = [TabsCreate (j_deviationUrl job)]"
    and "counters (fst (onRemoved e tabId s)) = counters s"
proof -
  obtain s2 pre where r: "onRemoved e tabId s =
       (fst (processJob e job s2), pre @ [Log WARNING, Sleep 2000] @ snd (processJob e job s2))"
    and f: "stats s2 = stats s"
    "tabClosureRetries s2 =
       (tabClosureRetries s)(j_id job \<mapsto> numberOrZero (tabClosureRetries s (j_id job)) + 1)"
    and g: "filter isBackendCall pre = []" "filter isTabsCreate pre = []"
    using onRemoved_retry[OF a b, of e] by metis
  have n: "snd (snd (processJob_try e job s2)) = None"
    by (simp add: processJob_try_delivered[OF d])
  have c: "counters s2 = counters s" by (simp add: counters_def f)
  show "activeJobs (fst (onRemoved e tabId s)) t = Some job"
    by (simp add: r processJob_delivered[OF d])
  show "tabClosureRetries (fst (onRemoved e tabId s)) (j_id job) =
           Some (numberOrZero (tabClosureRetries s (j_id job)) + 1)"
    by (simp add: r processJob_delivered[OF d] markProcessing_frame f)
  show "filter isBackendCall (snd (onRemoved e tabId s)) = []"
    by (simp add: r g processJob_backend n)
  show "filter isTabsCreate (snd (onRemoved e tabId s)) = [TabsCreate (j_deviationUrl job)]"
    by (simp add: r g processJob_one_create)
  have "counters (fst (processJob e job s2)) = counters (markProcessing e job s2)"
    by (simp add: processJob_delivered[OF d] counters_def)
  then show "counters (fst (onRemoved e tabId s)) = counters s"
    by (simp add: r markProcessing_frame c)
qed

subsection \<open>Every handler keeps the stats invariant\<close>

lemma statsInvariant_stats: "stats s' = stats s \<Longrightarrow> statsInvariant s' = statsInvariant s"
  by (simp add: statsInvariant_def)

lemma statsInvariant_handleJobSuccess:
  "statsInvariant s \<Longrightarrow> statsInvariant (fst (handleJobSuccess e tabId jobId s))"
  by (simp add: statsInvariant_def handleJobSuccess_stats statsOrDefault_def split: option.splits)

lemma statsInvariant_handleJobFailure:
  "statsInvariant s \<Longrightarrow> statsInvariant (fst (handleJobFailure e tid jobId msg s))"
  by (simp add: statsInvariant_def handleJobFailure_stats statsOrDefault_def split: sum.splits option.splits)

lemma processJob_try_stats:
  "stats (fst (processJob_try e job s)) =
     Some ((statsOrDefault (stats s))\<lparr>currentJob := Some (j_id job, j_title job)\<rparr>)"
  by (simp add: processJob_try_def Let_def markProcessing_def split: sum.splits option.splits prod.splits)

lemma statsInvariant_processJob:
  assumes "statsInvariant s"
  shows "statsInvariant (fst (processJob e job s))"
proof -
  obtain s1 ev1 r where t: "processJob_try e job s = (s1, ev1, r)" by (cases "processJob_try e job s")
  have "stats s1 = Some ((statsOrDefault (stats s))\<lparr>currentJob := Some (j_id job, j_title job)\<rparr>)"
    using processJob_try_stats[of e job s] t by simp
  with assms have i: "statsInvariant s1" by (simp add: statsInvariant_def statsOrDefault_def)
  show ?thesis
  proof (cases r)
    case None
    with t i show ?thesis by (simp add: processJob_def)
  next
    case (Some msg)
    have "fst (processJob e job s) = fst (handleJobFailure e None (j_id job) msg s1)"
      using t Some by (simp add: processJob_def split: prod.splits)
    with statsInvariant_handleJobFailure[OF i] show ?thesis by simp
  qed
qed

lemma statsInvariant_pollForJob:
  "statsInvariant s \<Longrightarrow> statsInvariant (fst (pollForJob e s))"
  using statsInvariant_processJob[of s e]
  by (auto simp: pollForJob_def Let_def split: sum.splits option.splits prod.splits)
     (metis fst_conv)

lemma statsInvariant_handleJobTimeout:
  "statsInvariant s \<Longrightarrow> statsInvariant (fst (handleJobTimeout e tabId s))"
  using statsInvariant_handleJobFailure[of s e]
  by (auto simp: handleJobTimeout_def split: option.splits prod.splits) (metis fst_conv)

lemma statsInvariant_onMessage:
  "statsInvariant s \<Longrightarrow> statsInvariant (fst (onMessage e m senderTab s))"
  by (simp add: onMessage_def statsInvariant_handleJobSuccess statsInvariant_handleJobFailure
      split: message.splits option.splits)

lemma statsInvariant_onRemoved:
  assumes "statsInvariant s"
  shows "statsInvariant (fst (onRemoved e tabId s))"
proof (cases "activeJobs s tabId")
  case None
  with assms show ?thesis by (simp add: onRemoved_def)
next
  case (Some job)
  show ?thesis
  proof (cases "numberOrZero (tabClosureRetries s (j_id job)) < MAX_TAB_CLOSURE_RETRIES")
    case True
    obtain s2 pre where r: "onRemoved e tabId s =
       (fst (processJob e job s2), pre @ [Log WARNING, Sleep 2000] @ snd (processJob e job s2))"
      and f: "stats s2 = stats s"
      using onRemoved_retry[OF Some True, of e] by metis
    from assms f have "statsInvariant s2" by (simp add: statsInvariant_def)
    then show ?thesis by (simp add: r statsInvariant_processJob)
  next
    case False
    let ?s0 = "s\<lparr>activeJobs := (activeJobs s)(tabId := None)\<rparr>"
    obtain s1 ev1 where c: "clearJobTimeout tabId ?s0 = (s1, ev1)"
      by (cases "clearJobTimeout tabId ?s0")
    have f: "stats s1 = stats s" "tabClosureRetries s1 = tabClosureRetries s"
      using clearJobTimeout_frame(2,3)[of tabId ?s0] c by simp_all
    let ?s2 = "s1\<lparr>tabClosureRetries := (tabClosureRetries s1)(j_id job := None)\<rparr>"
    have i: "statsInvariant ?s2" using assms f by (simp add: statsInvariant_def)
    have "fst (onRemoved e tabId s) =
        fst (handleJobFailure e None (j_id job) ''Tab closed 3 times'' ?s2)"
      using Some False unfolding onRemoved_def c by (simp add: Let_def f split: prod.splits)
    with statsInvariant_handleJobFailure[OF i] show ?thesis by simp
  qed
qed

lemma statsInvariant_onInstalled:
  "statsInvariant s \<Longrightarrow> statsInvariant (onInstalled s)"
  by (simp add: onInstalled_def statsInvariant_def statsOrDefault_def split: option.splits)

lemma statsInvariant_step: "statsInvariant s \<Longrightarrow> statsInvariant (step s x)"
proof (cases x)
  case (Pair e i)
  assume "statsInvariant s"
  then show ?thesis unfolding Pair
    by (cases i) (simp_all add: statsInvariant_onInstalled statsInvariant_pollForJob
        statsInvariant_onMessage statsInvariant_handleJobTimeout statsInvariant_onRemoved)
qed

lemma statsInvariant_foldl: "statsInvariant s \<Longrightarrow> statsInvariant (foldl step s inputs)"
  by (induction inputs arbitrary: s) (simp_all add: statsInvariant_step)

subsection \<open>The example states, evaluated\<close>

lemma okEnv_delivered: "t \<noteq> 0 \<Longrightarrow> delivered (okEnv t) job t"
  by (simp add: delivered_def okEnv_def startJobInTab_def eval_nat_numeral)

lemma counters_handleJobSuccess:
  "counters (fst (handleJobSuccess e tabId jobId s)) =
     (case completeJob e of
        Some msg \<Rightarrow> counters s
      | None \<Rightarrow> (case counters s of (p, su, f) \<Rightarrow> (p + 1, su + 1, f)))"
  by (simp add: counters_def handleJobSuccess_stats statsOrDefault_def split: option.splits)

lemma counters_handleJobFailure:
  "counters (fst (handleJobFailure e tid jobId msg s)) =
     (case failJob e of
        Inl m \<Rightarrow> counters s
      | Inr w \<Rightarrow> (case counters s of (p, su, f) \<Rightarrow> (p + 1, su, f + 1)))"
  by (simp add: counters_def handleJobFailure_stats statsOrDefault_def split: option.splits sum.splits)

lemma handleJobSuccess_activeJobs:
  "activeJobs (fst (handleJobSuccess e tabId jobId s)) =
     (case completeJob e of Some msg \<Rightarrow> activeJobs s | None \<Rightarrow> (activeJobs s)(tabId := None))"
  using clearJobTimeout_frame(1)[of tabId s]
  by (auto simp: handleJobSuccess_def handleJobSuccess_before_report_def Let_def
      storeUpdatedHistory_frame split: prod.splits option.splits)

lemma handleJobFailure_Some_activeJobs:
  "activeJobs (fst (handleJobFailure e (Some t) jobId msg s)) = (activeJobs s)(t := None)"
  using clearJobTimeout_frame(1)[of t s]
  by (auto simp: handleJobFailure_def handleJobFailure_before_report_def Let_def
      storeUpdatedHistory_frame split: prod.splits option.splits sum.splits)

lemma dispatchedState_fields:
  "activeJobs dispatchedState = [7 \<mapsto> job1]"
  "jobTimeouts dispatchedState = [7 \<mapsto> 41]"
  "tabClosureRetries dispatchedState = Map.empty"
  "counters dispatchedState = (0, 0, 0)"
  "jobHistory dispatchedState = Some [historyItem job1 processing 1000]"
proof -
  have d: "delivered (okEnv 7) job1 7" by (rule okEnv_delivered) simp
  note p = processJob_delivered[OF d, of installedState]
  show "activeJobs dispatchedState = [7 \<mapsto> job1]"
    unfolding dispatchedState_def p by (simp add: installedState_def)
  show "jobTimeouts dispatchedState = [7 \<mapsto> 41]"
    unfolding dispatchedState_def p by (simp add: installedState_def okEnv_def)
  show "tabClosureRetries dispatchedState = Map.empty"
    unfolding dispatchedState_def p by (simp add: installedState_def markProcessing_def)
  show "counters dispatchedState = (0, 0, 0)"
    unfolding dispatchedState_def p
    by (simp add: installedState_def markProcessing_def counters_def statsOrDefault_def
        initialStats_def)
  show "jobHistory dispatchedState = Some [historyItem job1 processing 1000]"
    unfolding dispatchedState_def p
    by (simp add: installedState_def markProcessing_def addJobToHistory_def historyOrEmpty_def
        okEnv_def)
qed

subsection \<open>The answer of the backend to a failure report\<close>

lemma onRemoved_ceiling_eq:
  assumes a: "activeJobs s tabId = Some job"
    and b: "MAX_TAB_CLOSURE_RETRIES \<le> numberOrZero (tabClosureRetries s (j_id job))"
  obtains s2 pre where
    "\<forall>e. onRemoved e tabId s =
       (fst (handleJobFailure e None (j_id job) ''Tab closed 3 times'' s2),
        pre @ Log ERROR # snd (handleJobFailure e None (j_id job) ''Tab closed 3 times'' s2))"
proof -
  let ?s0 = "s\<lparr>activeJobs := (activeJobs s)(tabId := None)\<rparr>"
  obtain s1 ev1 where c: "clearJobTimeout tabId ?s0 = (s1, ev1)"
    by (cases "clearJobTimeout tabId ?s0")
  have f: "tabClosureRetries s1 = tabClosureRetries s"
    using clearJobTimeout_frame(2)[of tabId ?s0] c by simp
  let ?s2 = "s1\<lparr>tabClosureRetries := (tabClosureRetries s1)(j_id job := None)\<rparr>"
  have "\<forall>e. onRemoved e tabId s =
       (fst (handleJobFailure e None (j_id job) ''Tab closed 3 times'' ?s2),
        ev1 @ Log ERROR # snd (handleJobFailure e None (j_id job) ''Tab closed 3 times'' ?s2))"
    using a b unfolding onRemoved_def c by (simp add: Let_def f split: prod.splits)
  then show thesis using that by blast
qed

lemma handleJobFailure_willRetry:
  "fst (handleJobFailure (e\<lparr>failJob := Inr w\<rparr>) tid j m s) =
   fst (handleJobFailure (e\<lparr>failJob := Inr w'\<rparr>) tid j m s)"
  "nonLog (snd (handleJobFailure (e\<lparr>failJob := Inr w\<rparr>) tid j m s)) =
   nonLog (snd (handleJobFailure (e\<lparr>failJob := Inr w'\<rparr>) tid j m s))"
  by (simp_all add: handleJobFailure_def Let_def nonLog_def split: prod.splits option.splits)

lemma onRemoved_ceiling_willRetry:
  assumes a: "activeJobs s tabId = Some job"
    and b: "MAX_TAB_CLOSURE_RETRIES \<le> numberOrZero (tabClosureRetries s (j_id job))"
  shows "fst (onRemoved (e\<lparr>failJob := Inr w\<rparr>) tabId s) = fst (onRemoved (e\<lparr>failJob := Inr w'\<rparr>) tabId s)"
    and "nonLog (snd (onRemoved (e\<lparr>failJob := Inr w\<rparr>) tabId s)) =
         nonLog (snd (onRemoved (e\<lparr>failJob := Inr w'\<rparr>) tabId s))"
proof -
  obtain s2 pre where r: "\<forall>e. onRemoved e tabId s =
       (fst (handleJobFailure e None (j_id job) ''Tab closed 3 times'' s2),
        pre @ Log ERROR # snd (handleJobFailure e None (j_id job) ''Tab closed 3 times'' s2))"
    using onRemoved_ceiling_eq[OF a b] by blast
  show "fst (onRemoved (e\<lparr>failJob := Inr w\<rparr>) tabId s) = fst (onRemoved (e\<lparr>failJob := Inr w'\<rparr>) tabId s)"
    using handleJobFailure_willRetry(1)[where e = e and w = w and w' = w' and tid = None
        and j = "j_id job" and m = "''Tab closed 3 times''" and s = s2]
    by (simp add: r)
  have "nonLog (snd (handleJobFailure (e\<lparr>failJob := Inr w\<rparr>) None (j_id job) ''Tab closed 3 times'' s2)) =
        nonLog (snd (handleJobFailure (e\<lparr>failJob := Inr w'\<rparr>) None (j_id job) ''Tab closed 3 times'' s2))"
    by (rule handleJobFailure_willRetry(2))
  then show "nonLog (snd (onRemoved (e\<lparr>failJob := Inr w\<rparr>) tabId s)) =
         nonLog (snd (onRemoved (e\<lparr>failJob := Inr w'\<rparr>) tabId s))"
    by (simp add: r nonLog_def)
qed

subsection \<open>Repeated removals of the job's tab\<close>

lemma crash_chain_step:
  assumes "activeJobs s t = Some job" "tabClosureRetries s (j_id job) = Some n \<or> (n = 0 \<and> tabClosureRetries s (j_id job) = None)"
    "n < 3" "delivered e job t'"
  shows "activeJobs (fst (onRemoved e t s)) t' = Some job"
    "tabClosureRetries (fst (onRemoved e t s)) (j_id job) = Some (n + 1)"
    "filter isBackendCall (snd (onRemoved e t s)) = []"
    "filter isTabsCreate (snd (onRemoved e t s)) = [TabsCreate (j_deviationUrl job)]"
proof -
  from assms(2) have n: "numberOrZero (tabClosureRetries s (j_id job)) = n"
    by (auto simp: numberOrZero_def)
  with assms(3) have b: "numberOrZero (tabClosureRetries s (j_id job)) < MAX_TAB_CLOSURE_RETRIES"
    by (simp add: MAX_TAB_CLOSURE_RETRIES_def)
  note l = onRemoved_retry_delivered[OF assms(1) b assms(4)]
  show "activeJobs (fst (onRemoved e t s)) t' = Some job" by (rule l(1))
  show "tabClosureRetries (fst (onRemoved e t s)) (j_id job) = Some (n + 1)" using l(2) n by simp
  show "filter isBackendCall (snd (onRemoved e t s)) = []" by (rule l(3))
  show "filter isTabsCreate (snd (onRemoved e t s)) = [TabsCreate (j_deviationUrl job)]" by (rule l(4))
qed

lemma crashed_unfold:
  "crashedOnce = fst (onRemoved (okEnv 8) 7 dispatchedState)"
  "crashedTwice = fst (onRemoved (okEnv 9) 8 crashedOnce)"
  "crashedThrice = fst (onRemoved (okEnv 10) 9 crashedTwice)"
  by (simp_all add: crashedOnce_def crashedTwice_def crashedThrice_def run_def)

lemma job1_fields: "j_id job1 = ''j1''" "j_deviationUrl job1 = ''https://www.deviantart.com/a/art/Sunset-1''"
  by (simp_all add: job1_def)

lemma crashedOnce_fields:
  "activeJobs crashedOnce 8 = Some job1"
  "tabClosureRetries crashedOnce (j_id job1) = Some 1"
proof -
  have d: "delivered (okEnv 8) job1 8" by (rule okEnv_delivered) simp
  have a: "activeJobs dispatchedState 7 = Some job1" by (simp add: dispatchedState_fields)
  have z: "tabClosureRetries dispatchedState (j_id job1) = Some 0 \<or>
      ((0::nat) = 0 \<and> tabClosureRetries dispatchedState (j_id job1) = None)"
    by (simp add: dispatchedState_fields)
  note c = crash_chain_step[OF a z _ d]
  show "activeJobs crashedOnce 8 = Some job1" using c(1) by (simp add: crashed_unfold)
  show "tabClosureRetries crashedOnce (j_id job1) = Some 1" using c(2) by (simp add: crashed_unfold)
qed

lemma crashedTwice_fields:
  "activeJobs crashedTwice 9 = Some job1"
  "tabClosureRetries crashedTwice (j_id job1) = Some 2"
proof -
  have d: "delivered (okEnv 9) job1 9" by (rule okEnv_delivered) simp
  note c = crash_chain_step[OF crashedOnce_fields(1) disjI1[OF crashedOnce_fields(2)] _ d]
  show "activeJobs crashedTwice 9 = Some job1" using c(1) by (simp add: crashed_unfold)
  show "tabClosureRetries crashedTwice (j_id job1) = Some 2" using c(2) by (simp add: crashed_unfold)
qed


subsection \<open>The ids in the history\<close>

lemma historyIds_storeUpdatedHistory:
  "historyIds (storeUpdatedHistory j st t s) = historyIds s"
  by (simp add: historyIds_def storeUpdatedHistory_def historyOrEmpty_def map_h_id_update
      split: option.splits)

lemma historyIds_jobHistory: "jobHistory s' = jobHistory s \<Longrightarrow> historyIds s' = historyIds s"
  by (simp add: historyIds_def)

lemma historyIds_frame:
  "historyIds (s\<lparr>stats := st\<rparr>) = historyIds s"
  "historyIds (s\<lparr>activeJobs := a\<rparr>) = historyIds s"
  by (simp_all add: historyIds_def)

lemma historyIds_handleJobFailure:
  "historyIds (fst (handleJobFailure e tid j m s)) = historyIds s"
proof -
  obtain s1 ev1 where b: "handleJobFailure_before_report tid j s = (s1, ev1)"
    by (cases "handleJobFailure_before_report tid j s")
  have "jobHistory s1 = jobHistory s"
    using handleJobFailure_before_report_frame(2)[of tid j s] b by simp
  then have h: "historyIds s1 = historyIds s" by (rule historyIds_jobHistory)
  show ?thesis
    unfolding handleJobFailure_def b
    by (simp add: Let_def h historyIds_storeUpdatedHistory historyIds_frame
        split: sum.splits option.splits)
qed

lemma historyIds_handleJobSuccess:
  "historyIds (fst (handleJobSuccess e tabId jobId s)) = historyIds s"
proof -
  obtain s1 ev1 where b: "handleJobSuccess_before_report tabId s = (s1, ev1)"
    by (cases "handleJobSuccess_before_report tabId s")
  have "jobHistory s1 = jobHistory s"
    using clearJobTimeout_frame(4)[of tabId s] b
    by (auto simp: handleJobSuccess_before_report_def split: prod.splits)
  then have h: "historyIds s1 = historyIds s" by (rule historyIds_jobHistory)
  have f: "\<And>x a r. historyIds (x\<lparr>activeJobs := a, tabClosureRetries := r\<rparr>) = historyIds x"
    by (simp add: historyIds_def)
  show ?thesis
    unfolding handleJobSuccess_def b
    by (simp add: Let_def h f historyIds_storeUpdatedHistory historyIds_frame
        split: option.splits)
qed

lemma historyIds_markProcessing:
  "historyIds (markProcessing e job s) = take 50 (j_id job # historyIds s)"
  by (simp add: historyIds_def markProcessing_def addJobToHistory_def historyOrEmpty_def
      historyItem_def take_map)

lemma jobHistory_processJob_try:
  "jobHistory (fst (processJob_try e job s)) = jobHistory (markProcessing e job s)"
  by (simp add: processJob_try_def Let_def split: sum.splits option.splits prod.splits)

lemma historyIds_processJob:
  "historyIds (fst (processJob e job s)) = take 50 (j_id job # historyIds s)"
proof -
  obtain s1 ev1 r where t: "processJob_try e job s = (s1, ev1, r)" by (cases "processJob_try e job s")
  have "jobHistory s1 = jobHistory (markProcessing e job s)"
    using jobHistory_processJob_try[of e job s] t by simp
  then have "historyIds s1 = historyIds (markProcessing e job s)" by (rule historyIds_jobHistory)
  then have h: "historyIds s1 = take 50 (j_id job # historyIds s)"
    by (simp add: historyIds_markProcessing)
  show ?thesis
  proof (cases r)
    case None
    with t h show ?thesis by (simp add: processJob_def)
  next
    case (Some msg)
    have "fst (processJob e job s) = fst (handleJobFailure e None (j_id job) msg s1)"
      using t Some by (simp add: processJob_def split: prod.splits)
    then show ?thesis by (simp add: historyIds_handleJobFailure h)
  qed
qed

lemma jobHistory_processJob_delivered:
  "delivered e job t \<Longrightarrow>
     jobHistory (fst (processJob e job s)) =
       Some (addJobToHistory job processing (now e) (historyOrEmpty (jobHistory s)))"
  by (simp add: processJob_delivered markProcessing_def)

lemma crashedOnce_history:
  "jobHistory crashedOnce =
     Some [historyItem job1 processing 1000, historyItem job1 processing 1000]"
proof -
  have d: "delivered (okEnv 8) job1 8" by (rule okEnv_delivered) simp
  have a: "activeJobs dispatchedState 7 = Some job1" by (simp add: dispatchedState_fields)
  have b: "numberOrZero (tabClosureRetries dispatchedState (j_id job1)) < MAX_TAB_CLOSURE_RETRIES"
    by (simp add: dispatchedState_fields numberOrZero_def MAX_TAB_CLOSURE_RETRIES_def)
  obtain s2 pre where r: "onRemoved (okEnv 8) 7 dispatchedState =
       (fst (processJob (okEnv 8) job1 s2),
        pre @ [Log WARNING, Sleep 2000] @ snd (processJob (okEnv 8) job1 s2))"
    and f: "jobHistory s2 = jobHistory dispatchedState"
    using onRemoved_retry[OF a b, of "okEnv 8"] by metis
  have "jobHistory crashedOnce =
      Some (addJobToHistory job1 processing (now (okEnv 8)) (historyOrEmpty (jobHistory s2)))"
    by (simp add: crashed_unfold r jobHistory_processJob_delivered[OF d])
  then show ?thesis
    by (simp add: f dispatchedState_fields addJobToHistory_def historyOrEmpty_def okEnv_def)
qed

lemma jobHistory_handleJobSuccess:
  "completeJob e = None \<Longrightarrow>
     jobHistory (fst (handleJobSuccess e tabId jobId s)) =
       jobHistory (storeUpdatedHistory jobId completed (now e) s)"
  using clearJobTimeout_frame(4)[of tabId s]
  by (auto simp: handleJobSuccess_def handleJobSuccess_before_report_def Let_def
      storeUpdatedHistory_def split: prod.splits option.splits)

subsection \<open>Which record an update changes\<close>

lemma findIndex_first:
  "findIndex jobId h = Some i \<longleftrightarrow>
     i < length h \<and> h_id (h ! i) = jobId \<and> (\<forall>k<i. h_id (h ! k) \<noteq> jobId)"
proof
  assume "findIndex jobId h = Some i"
  then show "i < length h \<and> h_id (h ! i) = jobId \<and> (\<forall>k<i. h_id (h ! k) \<noteq> jobId)"
    by (rule findIndex_Some)
next
  assume "i < length h \<and> h_id (h ! i) = jobId \<and> (\<forall>k<i. h_id (h ! k) \<noteq> jobId)"
  then show "findIndex jobId h = Some i"
  proof (induction h arbitrary: i)
    case Nil
    then show ?case by simp
  next
    case (Cons x xs)
    show ?case
    proof (cases i)
      case 0
      with Cons.prems show ?thesis by simp
    next
      case (Suc j)
      with Cons.prems have x: "h_id x \<noteq> jobId" by auto
      from Cons.prems Suc have "j < length xs \<and> h_id (xs ! j) = jobId \<and> (\<forall>k<j. h_id (xs ! k) \<noteq> jobId)"
        by auto
      then have "findIndex jobId xs = Some j" by (rule Cons.IH)
      with x Suc show ?thesis by simp
    qed
  qed
qed

lemma findIndex_None_iff: "findIndex jobId h = None \<longleftrightarrow> jobId \<notin> set (map h_id h)"
  by (induction h) (auto split: option.splits)

lemma updateJobInHistory_nth:
  assumes "k < length h"
  shows "updateJobInHistory jobId st t h ! k =
     (if h_id (h ! k) = jobId \<and> (\<forall>j<k. h_id (h ! j) \<noteq> jobId)
      then (h ! k)\<lparr>h_status := st, h_timestamp := t\<rparr> else h ! k)"
proof (cases "findIndex jobId h")
  case None
  then have "jobId \<notin> set (map h_id h)" by (simp add: findIndex_None_iff)
  with assms have "h_id (h ! k) \<noteq> jobId" by (metis nth_map nth_mem length_map)
  with None show ?thesis by (simp add: updateJobInHistory_def)
next
  case (Some i)
  then have i: "i < length h" "h_id (h ! i) = jobId" "\<forall>j<i. h_id (h ! j) \<noteq> jobId"
    using findIndex_Some by blast+
  have "(h_id (h ! k) = jobId \<and> (\<forall>j<k. h_id (h ! j) \<noteq> jobId)) \<longleftrightarrow> k = i"
    using i by (metis linorder_neqE_nat)
  with Some assms show ?thesis by (simp add: updateJobInHistory_def nth_list_update)
qed

lemma history_storeUpdatedHistory:
  "historyOrEmpty (jobHistory (storeUpdatedHistory j st t s)) =
     updateJobInHistory j st t (historyOrEmpty (jobHistory s))"
  by (simp add: storeUpdatedHistory_def updateJobInHistory_def historyOrEmpty_def
      split: option.splits)

lemma history_handleJobSuccess:
  "historyOrEmpty (jobHistory (fst (handleJobSuccess e tabId jobId s))) =
     (case completeJob e of
        Some msg \<Rightarrow> historyOrEmpty (jobHistory s)
      | None \<Rightarrow> updateJobInHistory jobId completed (now e) (historyOrEmpty (jobHistory s)))"
proof (cases "completeJob e")
  case None
  then show ?thesis
    by (simp add: jobHistory_handleJobSuccess history_storeUpdatedHistory)
next
  case (Some msg)
  then show ?thesis
    using clearJobTimeout_frame(4)[of tabId s]
    by (auto simp: handleJobSuccess_def handleJobSuccess_before_report_def split: prod.splits)
qed

lemma history_handleJobFailure:
  "historyOrEmpty (jobHistory (fst (handleJobFailure e tid jobId msg s))) =
     (case failJob e of
        Inl m \<Rightarrow> historyOrEmpty (jobHistory s)
      | Inr w \<Rightarrow> updateJobInHistory jobId failed_status (now e) (historyOrEmpty (jobHistory s)))"
proof -
  obtain s1 ev1 where b: "handleJobFailure_before_report tid jobId s = (s1, ev1)"
    by (cases "handleJobFailure_before_report tid jobId s")
  have h: "jobHistory s1 = jobHistory s"
    using handleJobFailure_before_report_frame(2)[of tid jobId s] b by simp
  have f: "\<And>x st. historyOrEmpty (jobHistory (storeUpdatedHistory jobId failed_status (now e) (x\<lparr>stats := st\<rparr>)))
      = updateJobInHistory jobId failed_status (now e) (historyOrEmpty (jobHistory x))"
    by (simp add: history_storeUpdatedHistory)
  show ?thesis
    unfolding handleJobFailure_def b
    by (simp add: Let_def h f split: sum.splits option.splits)
qed

lemma mixedHistory_ids: "map h_id mixedHistory = [''j2'', ''j1'', ''j1'']"
  by (simp add: mixedHistory_def historyItem_def job1_def job2_def)

subsection \<open>A re-dispatch that is not delivered\<close>





section \<open>The claims\<close>

subsection \<open>C1: a second finalize call\<close>

text \<open>
  Claim C1 says that a second call of \<open>handleJobSuccess\<close> or
  \<open>handleJobFailure\<close> for a tab id whose entry has already been removed is a
  no-op, so that two calls have the effect of one terminal transition. Neither handler
  looks at \<open>activeJobs\<close> before it reports: in \<open>finalizedState\<close> the entry of
  tab 7 is gone, and a second success message for tab 7 reports to the backend again
  and raises \<open>processed\<close> and \<open>succeeded\<close> from 1 to 2.
\<close>

theorem finalize_twice_is_two_transitions:
  "activeJobs dispatchedState 7 = Some job1
   \<and> activeJobs finalizedState 7 = None
   \<and> filter isBackendCall (snd (handleJobSuccess (okEnv 7) 7 ''j1'' dispatchedState)) = [CompleteJob ''j1'']
   \<and> counters finalizedState = (1, 1, 0)
   \<and> filter isBackendCall (snd (handleJobSuccess (okEnv 7) 7 ''j1'' finalizedState)) = [CompleteJob ''j1'']
   \<and> counters (fst (handleJobSuccess (okEnv 7) 7 ''j1'' finalizedState)) = (2, 2, 0)
   \<and> handleJobSuccess (okEnv 7) 7 ''j1'' finalizedState \<noteq> (finalizedState, [])"
proof -
  have c: "completeJob (okEnv 7) = None" by (simp add: okEnv_def)
  have a: "counters finalizedState = (1, 1, 0)"
    by (simp add: finalizedState_def counters_handleJobSuccess c dispatchedState_fields)
  have b: "counters (fst (handleJobSuccess (okEnv 7) 7 ''j1'' finalizedState)) = (2, 2, 0)"
    by (simp add: counters_handleJobSuccess c a)
  from a b have "fst (handleJobSuccess (okEnv 7) 7 ''j1'' finalizedState) \<noteq> finalizedState"
    by auto
  then have "handleJobSuccess (okEnv 7) 7 ''j1'' finalizedState \<noteq> (finalizedState, [])"
    by auto
  then show ?thesis
    using a b
    by (simp add: handleJobSuccess_calls dispatchedState_fields finalizedState_def
        handleJobSuccess_activeJobs c)
qed

text \<open>
  Claim C1 as amended: every call of \<open>handleJobSuccess\<close> or
  \<open>handleJobFailure\<close> makes exactly one report to the backend, whether or not the
  tab id has an entry, and when the report succeeds it raises \<open>processed\<close> and
  \<open>succeeded\<close> (or \<open>failed\<close>) by one; only the removal of the entry is idempotent:
  an entry that is absent stays absent.
\<close>

theorem finalize_call_is_one_transition:
  "filter isBackendCall (snd (handleJobSuccess e tabId jobId s)) = [CompleteJob jobId]
   \<and> filter isBackendCall (snd (handleJobFailure e tid jobId msg s)) = [FailJob jobId msg]
   \<and> (completeJob e = None \<longrightarrow>
        counters (fst (handleJobSuccess e tabId jobId s)) =
          (fst (counters s) + 1, fst (snd (counters s)) + 1, snd (snd (counters s))))
   \<and> (failJob e = Inr willRetry \<longrightarrow>
        counters (fst (handleJobFailure e tid jobId msg s)) =
          (fst (counters s) + 1, fst (snd (counters s)), snd (snd (counters s)) + 1))
   \<and> (activeJobs s tabId = None \<longrightarrow>
        activeJobs (fst (handleJobSuccess e tabId jobId s)) tabId = None
        \<and> activeJobs (fst (handleJobFailure e (Some tabId) jobId msg s)) tabId = None)"
  by (simp add: handleJobSuccess_calls handleJobFailure_calls counters_handleJobSuccess
      counters_handleJobFailure handleJobSuccess_activeJobs handleJobFailure_Some_activeJobs
      split: prod.splits option.splits)

theorem finalize_call_is_one_transition_witness:
  "completeJob (okEnv 7) = None \<and> failJob (okEnv 7) = Inr True
   \<and> activeJobs finalizedState 7 = None
   \<and> counters finalizedState = (1, 1, 0)
   \<and> filter isBackendCall (snd (handleJobSuccess (okEnv 7) 7 ''j1'' finalizedState)) = [CompleteJob ''j1'']
   \<and> counters (fst (handleJobSuccess (okEnv 7) 7 ''j1'' finalizedState)) = (2, 2, 0)
   \<and> filter isBackendCall (snd (handleJobFailure (okEnv 7) (Some 7) ''j1'' ''late'' finalizedState)) =
       [FailJob ''j1'' ''late'']
   \<and> counters (fst (handleJobFailure (okEnv 7) (Some 7) ''j1'' ''late'' finalizedState)) = (2, 1, 1)
   \<and> activeJobs (fst (handleJobSuccess (okEnv 7) 7 ''j1'' finalizedState)) 7 = None"
proof -
  have c: "completeJob (okEnv 7) = None" "failJob (okEnv 7) = Inr True" by (simp_all add: okEnv_def)
  have a: "counters finalizedState = (1, 1, 0)"
    by (simp add: finalizedState_def counters_handleJobSuccess c dispatchedState_fields)
  have n: "activeJobs finalizedState 7 = None"
    by (simp add: finalizedState_def handleJobSuccess_activeJobs c)
  show ?thesis
    using finalize_call_is_one_transition
      [of "okEnv 7" 7 "''j1''" finalizedState "Some 7" "''late''" True]
    by (simp add: c a n)
qed

subsection \<open>C2: the entry is removed before the report\<close>

text \<open>
  Claim C2 says that on success and on failure the entry is removed from
  \<open>activeJobs\<close> before the report to the backend is awaited. \<open>handleJobFailure\<close>
  with a tab id does so. \<open>handleJobSuccess\<close> does not: while
  \<open>completeJob\<close> is awaited for the job in tab 7, only the timer has been cleared
  and the entry of tab 7 is still registered; it is deleted after the report, the stats
  and the history. A removal of tab 7 that arrives during the report finds the entry
  and dispatches the job again.
\<close>

theorem success_entry_registered_while_reporting:
  "activeJobs dispatchedState 7 = Some job1
   \<and> handleJobSuccess_before_report 7 dispatchedState =
       (dispatchedState\<lparr>jobTimeouts := Map.empty\<rparr>, [ClearTimeout 41, Log SUCCESS, Log INFO])
   \<and> activeJobs (fst (handleJobSuccess_before_report 7 dispatchedState)) 7 = Some job1
   \<and> snd (handleJobSuccess (okEnv 7) 7 ''j1'' dispatchedState) =
       [ClearTimeout 41, Log SUCCESS, Log INFO, CompleteJob ''j1'', Log INFO, Log INFO, TabsRemove 7]
   \<and> filter isTabsCreate
        (snd (onRemoved (okEnv 8) 7 (fst (handleJobSuccess_before_report 7 dispatchedState)))) =
       [TabsCreate (j_deviationUrl job1)]
   \<and> activeJobs (fst (handleJobFailure_before_report (Some 7) ''j1'' dispatchedState)) 7 = None"
proof -
  have r: "handleJobSuccess_before_report 7 dispatchedState =
       (dispatchedState\<lparr>jobTimeouts := Map.empty\<rparr>, [ClearTimeout 41, Log SUCCESS, Log INFO])"
    by (simp add: handleJobSuccess_before_report_def clearJobTimeout_def dispatchedState_fields)
  have a: "activeJobs (dispatchedState\<lparr>jobTimeouts := Map.empty\<rparr>) 7 = Some job1"
    by (simp add: dispatchedState_fields)
  have b: "numberOrZero (tabClosureRetries (dispatchedState\<lparr>jobTimeouts := Map.empty\<rparr>) (j_id job1))
      < MAX_TAB_CLOSURE_RETRIES"
    by (simp add: dispatchedState_fields numberOrZero_def MAX_TAB_CLOSURE_RETRIES_def)
  have d: "delivered (okEnv 8) job1 8" by (rule okEnv_delivered) simp
  have t: "filter isTabsCreate
        (snd (onRemoved (okEnv 8) 7 (fst (handleJobSuccess_before_report 7 dispatchedState)))) =
       [TabsCreate (j_deviationUrl job1)]"
    using onRemoved_retry_delivered(4)[OF a b d] by (simp add: r)
  show ?thesis
    using t
    by (simp add: r handleJobSuccess_def clearJobTimeout_def dispatchedState_fields
        handleJobFailure_before_report_def Let_def okEnv_def)
qed

subsection \<open>C3: a report that fails\<close>

text \<open>
  Claim C3 says that when the report to the backend throws, it is not retried and the
  job is removed from \<open>activeJobs\<close> all the same. The report is made once in both
  handlers, and \<open>handleJobFailure\<close> has removed the entry before it reports. In
  \<open>handleJobSuccess\<close> the error of \<open>completeJob\<close> skips the rest of the
  \<open>try\<close> block, the clean-up included: the entry of tab 7 stays registered, with
  its timer cleared.
\<close>

theorem success_report_failure_keeps_entry:
  "activeJobs dispatchedState 7 = Some job1
   \<and> completeJob throwEnv = Some ''Network error: Failed to connect''
   \<and> activeJobs (fst (handleJobSuccess throwEnv 7 ''j1'' dispatchedState)) 7 = Some job1
   \<and> jobTimeouts (fst (handleJobSuccess throwEnv 7 ''j1'' dispatchedState)) 7 = None
   \<and> snd (handleJobSuccess throwEnv 7 ''j1'' dispatchedState) =
       [ClearTimeout 41, Log SUCCESS, Log INFO, CompleteJob ''j1'', Log ERROR]
   \<and> activeJobs (fst (handleJobFailure throwEnv (Some 7) ''j1'' ''boom'' dispatchedState)) 7 = None"
  by (simp add: handleJobSuccess_def handleJobSuccess_before_report_def clearJobTimeout_def
      dispatchedState_fields handleJobFailure_Some_activeJobs Let_def okEnv_def throwEnv_def)

subsection \<open>C4: the two tiers of the crash retry\<close>




subsection \<open>C5: a job whose tab is closed again and again\<close>

text \<open>
  Claim C5 says that with a ceiling of 3 the first two removals of the job's tab are
  retried locally and the third is reported to the backend. The listener compares the
  count before it increments it, \<open>retryCount < MAX_TAB_CLOSURE_RETRIES\<close>, so the
  third removal finds the count 2 and is retried as well: no call to the backend, one new
  tab, and the count becomes 3.
\<close>

theorem third_crash_retried_locally:
  "activeJobs crashedTwice 9 = Some job1
   \<and> tabClosureRetries crashedTwice ''j1'' = Some 2
   \<and> filter isBackendCall (snd (onRemoved (okEnv 10) 9 crashedTwice)) = []
   \<and> filter isTabsCreate (snd (onRemoved (okEnv 10) 9 crashedTwice)) =
       [TabsCreate ''https://www.deviantart.com/a/art/Sunset-1'']
   \<and> tabClosureRetries (fst (onRemoved (okEnv 10) 9 crashedTwice)) ''j1'' = Some 3"
proof -
  have d: "delivered (okEnv 10) job1 10" by (rule okEnv_delivered) simp
  note c = crash_chain_step[OF crashedTwice_fields(1) disjI1[OF crashedTwice_fields(2)] _ d]
  show ?thesis using c crashedTwice_fields by (simp add: job1_fields)
qed

text \<open>
  Claim C5 as amended: for a dispatched job with no retry counter whose tab is removed
  again and again, each re-dispatch being delivered, the first three removals each open
  exactly one new tab and make no call to the backend; the fourth removal is at the
  ceiling and makes exactly one \<open>failJob\<close> call and opens no tab. The
  \<open>willRetry\<close> answer changes neither the resulting state nor any call other than
  the level of a log line.
\<close>

theorem fourth_crash_reports_failure:
  assumes a: "activeJobs s t0 = Some job"
    and z: "tabClosureRetries s (j_id job) = None"
    and d1: "delivered e1 job t1" and d2: "delivered e2 job t2" and d3: "delivered e3 job t3"
  shows
    "filter isBackendCall (snd (onRemoved e1 t0 s)) = []
     \<and> filter isTabsCreate (snd (onRemoved e1 t0 s)) = [TabsCreate (j_deviationUrl job)]
     \<and> filter isBackendCall (snd (onRemoved e2 t1 (run s [(e1, TabRemoved t0)]))) = []
     \<and> filter isTabsCreate (snd (onRemoved e2 t1 (run s [(e1, TabRemoved t0)]))) =
         [TabsCreate (j_deviationUrl job)]
     \<and> filter isBackendCall
         (snd (onRemoved e3 t2 (run s [(e1, TabRemoved t0), (e2, TabRemoved t1)]))) = []
     \<and> filter isTabsCreate
         (snd (onRemoved e3 t2 (run s [(e1, TabRemoved t0), (e2, TabRemoved t1)]))) =
         [TabsCreate (j_deviationUrl job)]
     \<and> filter isBackendCall
         (snd (onRemoved e4 t3
            (run s [(e1, TabRemoved t0), (e2, TabRemoved t1), (e3, TabRemoved t2)]))) =
         [FailJob (j_id job) ''Tab closed 3 times'']
     \<and> filter isTabsCreate
         (snd (onRemoved e4 t3
            (run s [(e1, TabRemoved t0), (e2, TabRemoved t1), (e3, TabRemoved t2)]))) = []
     \<and> fst (onRemoved (e4\<lparr>failJob := Inr True\<rparr>) t3
            (run s [(e1, TabRemoved t0), (e2, TabRemoved t1), (e3, TabRemoved t2)])) =
       fst (onRemoved (e4\<lparr>failJob := Inr False\<rparr>) t3
            (run s [(e1, TabRemoved t0), (e2, TabRemoved t1), (e3, TabRemoved t2)]))
     \<and> nonLog (snd (onRemoved (e4\<lparr>failJob := Inr True\<rparr>) t3
            (run s [(e1, TabRemoved t0), (e2, TabRemoved t1), (e3, TabRemoved t2)]))) =
       nonLog (snd (onRemoved (e4\<lparr>failJob := Inr False\<rparr>) t3
            (run s [(e1, TabRemoved t0), (e2, TabRemoved t1), (e3, TabRemoved t2)])))"
proof -
  let ?s1 = "fst (onRemoved e1 t0 s)"
  let ?s2 = "fst (onRemoved e2 t1 ?s1)"
  let ?s3 = "fst (onRemoved e3 t2 ?s2)"
  have r1: "run s [(e1, TabRemoved t0)] = ?s1" by (simp add: run_def)
  have r2: "run s [(e1, TabRemoved t0), (e2, TabRemoved t1)] = ?s2" by (simp add: run_def)
  have r3: "run s [(e1, TabRemoved t0), (e2, TabRemoved t1), (e3, TabRemoved t2)] = ?s3"
    by (simp add: run_def)
  note c1 = crash_chain_step[OF a _ _ d1, of 0]
  have k1: "activeJobs ?s1 t1 = Some job" "tabClosureRetries ?s1 (j_id job) = Some 1"
    using c1(1,2) z by simp_all
  note c2 = crash_chain_step[OF k1(1) _ _ d2, of 1]
  have k2: "activeJobs ?s2 t2 = Some job" "tabClosureRetries ?s2 (j_id job) = Some 2"
    using c2(1,2) k1(2) by simp_all
  note c3 = crash_chain_step[OF k2(1) _ _ d3, of 2]
  have k3: "activeJobs ?s3 t3 = Some job" "tabClosureRetries ?s3 (j_id job) = Some 3"
    using c3(1,2) k2(2) by simp_all
  have b: "MAX_TAB_CLOSURE_RETRIES \<le> numberOrZero (tabClosureRetries ?s3 (j_id job))"
    by (simp add: k3(2) numberOrZero_def MAX_TAB_CLOSURE_RETRIES_def)
  have "filter isBackendCall (snd (onRemoved e1 t0 s)) = []"
    "filter isTabsCreate (snd (onRemoved e1 t0 s)) = [TabsCreate (j_deviationUrl job)]"
    using c1(3,4) z by simp_all
  moreover have "filter isBackendCall (snd (onRemoved e2 t1 ?s1)) = []"
    "filter isTabsCreate (snd (onRemoved e2 t1 ?s1)) = [TabsCreate (j_deviationUrl job)]"
    using c2(3,4) k1(2) by simp_all
  moreover have "filter isBackendCall (snd (onRemoved e3 t2 ?s2)) = []"
    "filter isTabsCreate (snd (onRemoved e3 t2 ?s2)) = [TabsCreate (j_deviationUrl job)]"
    using c3(3,4) k2(2) by simp_all
  moreover have "filter isBackendCall (snd (onRemoved e4 t3 ?s3)) =
      [FailJob (j_id job) ''Tab closed 3 times'']"
    "filter isTabsCreate (snd (onRemoved e4 t3 ?s3)) = []"
    using onRemoved_ceiling(3,4)[OF k3(1) b] by simp_all
  moreover have "fst (onRemoved (e4\<lparr>failJob := Inr True\<rparr>) t3 ?s3) =
      fst (onRemoved (e4\<lparr>failJob := Inr False\<rparr>) t3 ?s3)"
    "nonLog (snd (onRemoved (e4\<lparr>failJob := Inr True\<rparr>) t3 ?s3)) =
      nonLog (snd (onRemoved (e4\<lparr>failJob := Inr False\<rparr>) t3 ?s3))"
    using onRemoved_ceiling_willRetry[OF k3(1) b] by simp_all
  ultimately show ?thesis unfolding r1 r2 r3 by simp
qed

theorem fourth_crash_reports_failure_witness:
  "activeJobs dispatchedState 7 = Some job1
   \<and> tabClosureRetries dispatchedState (j_id job1) = None
   \<and> delivered (okEnv 8) job1 8 \<and> delivered (okEnv 9) job1 9 \<and> delivered (okEnv 10) job1 10
   \<and> filter isBackendCall (snd (onRemoved (okEnv 8) 7 dispatchedState)) = []
   \<and> filter isBackendCall (snd (onRemoved (okEnv 9) 8 crashedOnce)) = []
   \<and> filter isBackendCall (snd (onRemoved (okEnv 10) 9 crashedTwice)) = []
   \<and> filter isBackendCall (snd (onRemoved (okEnv 11) 10 crashedThrice)) =
       [FailJob ''j1'' ''Tab closed 3 times'']
   \<and> filter isTabsCreate (snd (onRemoved (okEnv 11) 10 crashedThrice)) = []"
  using fourth_crash_reports_failure[of dispatchedState 7 job1 "okEnv 8" 8 "okEnv 9" 9 "okEnv 10" 10 "okEnv 11"]
    okEnv_delivered[of 8 job1] okEnv_delivered[of 9 job1] okEnv_delivered[of 10 job1]
  by (simp add: dispatchedState_fields crashedOnce_def crashedTwice_def crashedThrice_def job1_fields)

subsection \<open>C6: a timeout after the job was finalized\<close>

text \<open>
  Claim C6: when the tab id has no entry in \<open>activeJobs\<close>, \<open>handleJobTimeout\<close>
  returns at once: the state is unchanged (stats and history with it) and nothing is
  called. In particular this is so after a success message whose report went through,
  which has removed the entry.
\<close>

theorem timeout_after_finalize_noop:
  "(activeJobs s tabId = None \<longrightarrow> handleJobTimeout e tabId s = (s, []))
   \<and> (completeJob e' = None \<longrightarrow>
        handleJobTimeout e tabId (fst (handleJobSuccess e' tabId jobId s')) =
          (fst (handleJobSuccess e' tabId jobId s'), []))"
  by (simp add: handleJobTimeout_def handleJobSuccess_activeJobs)

theorem timeout_after_finalize_noop_witness:
  "activeJobs installedState 7 = None
   \<and> handleJobTimeout (okEnv 7) 7 installedState = (installedState, [])
   \<and> completeJob (okEnv 7) = None
   \<and> activeJobs dispatchedState 7 = Some job1
   \<and> handleJobTimeout (okEnv 7) 7 (fst (handleJobSuccess (okEnv 7) 7 ''j1'' dispatchedState)) =
        (fst (handleJobSuccess (okEnv 7) 7 ''j1'' dispatchedState), [])"
  using timeout_after_finalize_noop
    [of installedState 7 "okEnv 7" "okEnv 7" "''j1''" dispatchedState]
  by (simp add: installedState_def okEnv_def dispatchedState_fields)

subsection \<open>C7: the stats counters\<close>

text \<open>
  Claim C7: starting from a stats record that is absent or has the three counters at
  zero, \<open>processed = succeeded + failed\<close> holds after every sequence of events of
  the worker, whatever the environment answers, and so it holds after a further
  \<open>handleJobSuccess\<close> or \<open>handleJobFailure\<close>.
\<close>

theorem stats_invariant_reachable:
  assumes "stats s = None \<or> stats s = Some initialStats"
  shows "statsInvariant (run s inputs)
    \<and> statsInvariant (fst (handleJobSuccess e tabId jobId (run s inputs)))
    \<and> statsInvariant (fst (handleJobFailure e tid jobId msg (run s inputs)))"
proof -
  from assms have "statsInvariant s"
    by (auto simp: statsInvariant_def statsOrDefault_def initialStats_def)
  then have "statsInvariant (run s inputs)" by (simp add: run_def statsInvariant_foldl)
  then show ?thesis
    by (simp add: statsInvariant_handleJobSuccess statsInvariant_handleJobFailure)
qed

theorem stats_invariant_reachable_witness:
  "(stats installedState = None \<or> stats installedState = Some initialStats)
   \<and> statsInvariant (run installedState
        [(okEnv 7, Poll), (okEnv 7, Message (JOB_SUCCESS ''j1'') (Some 7)),
         (okEnv 8, Poll), (okEnv 8, Timeout 8)])
   \<and> statsInvariant (fst (handleJobSuccess (okEnv 7) 7 ''j1'' (run installedState [(okEnv 7, Poll)])))"
  using stats_invariant_reachable
      [of installedState "[(okEnv 7, Poll), (okEnv 7, Message (JOB_SUCCESS ''j1'') (Some 7)),
         (okEnv 8, Poll), (okEnv 8, Timeout 8)]"]
    stats_invariant_reachable[of installedState "[(okEnv 7, Poll)]" "okEnv 7" 7 "''j1''"]
  by (simp add: installedState_def)

subsection \<open>C8: the history list\<close>

text \<open>
  Claim C8: a history of at most 50 records stays at most 50 records long under every
  sequence of \<open>addJobToHistory\<close> and \<open>updateJobInHistory\<close>. An insertion puts
  the new record in front and keeps the first 49 of the old ones, so on a full list the
  last, oldest record is dropped. \<open>updateJobInHistory\<close> keeps the length;
  whenever the list has a record with the job's id, \<open>findIndex\<close> finds the first
  one, and the update sets the status and the timestamp of exactly that record and
  leaves every other record as it was. The two finalize handlers store exactly this
  update when their report goes through (\<open>completed\<close> on success,
  \<open>failed\<close> on failure), and in every case keep the list of ids: no record is
  appended.
\<close>

theorem history_capacity_eviction_update:
  "(length h \<le> 50 \<longrightarrow> length (runHistoryOps ops h) \<le> 50)
   \<and> addJobToHistory job st t h = historyItem job st t # take 49 h
   \<and> (length h = 50 \<longrightarrow> addJobToHistory job st t h = historyItem job st t # butlast h)
   \<and> length (updateJobInHistory jobId st' t' h) = length h
   \<and> (\<forall>k<length h. updateJobInHistory jobId st' t' h ! k =
         (if findIndex jobId h = Some k then (h ! k)\<lparr>h_status := st', h_timestamp := t'\<rparr> else h ! k))
   \<and> (\<forall>i. findIndex jobId h = Some i \<longrightarrow> i < length h \<and> h_id (h ! i) = jobId)
   \<and> historyIds (fst (handleJobSuccess e tabId jobId s)) = historyIds s
   \<and> historyIds (fst (handleJobFailure e tid jobId msg s)) = historyIds s
   \<and> (\<forall>i. findIndex jobId h = Some i \<longleftrightarrow>
          i < length h \<and> h_id (h ! i) = jobId \<and> (\<forall>k<i. h_id (h ! k) \<noteq> jobId))
   \<and> (jobId \<in> set (map h_id h) \<longrightarrow> (\<exists>i. findIndex jobId h = Some i))
   \<and> (\<forall>k<length h. updateJobInHistory jobId st' t' h ! k =
         (if h_id (h ! k) = jobId \<and> (\<forall>j<k. h_id (h ! j) \<noteq> jobId)
          then (h ! k)\<lparr>h_status := st', h_timestamp := t'\<rparr> else h ! k))
   \<and> (completeJob e = None \<longrightarrow>
        historyOrEmpty (jobHistory (fst (handleJobSuccess e tabId jobId s))) =
          updateJobInHistory jobId completed (now e) (historyOrEmpty (jobHistory s)))
   \<and> (\<forall>w. failJob e = Inr w \<longrightarrow>
        historyOrEmpty (jobHistory (fst (handleJobFailure e tid jobId msg s))) =
          updateJobInHistory jobId failed_status (now e) (historyOrEmpty (jobHistory s)))"
proof (intro conjI)
  show "length h \<le> 50 \<longrightarrow> length (runHistoryOps ops h) \<le> 50"
    by (simp add: runHistoryOps_def length_foldl_applyHistoryOp)
  show "addJobToHistory job st t h = historyItem job st t # take 49 h"
    by (simp add: addJobToHistory_def)
  show "length h = 50 \<longrightarrow> addJobToHistory job st t h = historyItem job st t # butlast h"
    by (simp add: addJobToHistory_def take_49_butlast)
  show "length (updateJobInHistory jobId st' t' h) = length h"
    by (rule length_updateJobInHistory)
  show "\<forall>k<length h. updateJobInHistory jobId st' t' h ! k =
         (if findIndex jobId h = Some k then (h ! k)\<lparr>h_status := st', h_timestamp := t'\<rparr> else h ! k)"
    by (auto simp: updateJobInHistory_def nth_list_update split: option.splits)
  show "\<forall>i. findIndex jobId h = Some i \<longrightarrow> i < length h \<and> h_id (h ! i) = jobId"
    using findIndex_Some by blast
  show "historyIds (fst (handleJobSuccess e tabId jobId s)) = historyIds s"
    by (rule historyIds_handleJobSuccess)
  show "historyIds (fst (handleJobFailure e tid jobId msg s)) = historyIds s"
    by (rule historyIds_handleJobFailure)
  show "\<forall>i. findIndex jobId h = Some i \<longleftrightarrow>
          i < length h \<and> h_id (h ! i) = jobId \<and> (\<forall>k<i. h_id (h ! k) \<noteq> jobId)"
    using findIndex_first by blast
  show "jobId \<in> set (map h_id h) \<longrightarrow> (\<exists>i. findIndex jobId h = Some i)"
    using findIndex_None_iff[of jobId h] by (cases "findIndex jobId h") simp_all
  show "\<forall>k<length h. updateJobInHistory jobId st' t' h ! k =
         (if h_id (h ! k) = jobId \<and> (\<forall>j<k. h_id (h ! j) \<noteq> jobId)
          then (h ! k)\<lparr>h_status := st', h_timestamp := t'\<rparr> else h ! k)"
    using updateJobInHistory_nth by blast
  show "completeJob e = None \<longrightarrow>
        historyOrEmpty (jobHistory (fst (handleJobSuccess e tabId jobId s))) =
          updateJobInHistory jobId completed (now e) (historyOrEmpty (jobHistory s))"
    by (simp add: history_handleJobSuccess)
  show "\<forall>w. failJob e = Inr w \<longrightarrow>
        historyOrEmpty (jobHistory (fst (handleJobFailure e tid jobId msg s))) =
          updateJobInHistory jobId failed_status (now e) (historyOrEmpty (jobHistory s))"
    by (simp add: history_handleJobFailure)
qed

theorem history_capacity_eviction_update_witness:
  "length fullHistory \<le> 50
   \<and> length (runHistoryOps [AddJob job2 processing 1000, UpdateJob ''j2'' completed 2000,
        AddJob job1 processing 3000] fullHistory) \<le> 50
   \<and> length fullHistory = 50
   \<and> addJobToHistory job2 processing 1000 fullHistory =
       historyItem job2 processing 1000 # butlast fullHistory
   \<and> findIndex ''j1'' fullHistory = Some 0
   \<and> 0 < length fullHistory
   \<and> updateJobInHistory ''j1'' completed 2000 fullHistory ! 0 =
       (fullHistory ! 0)\<lparr>h_status := completed, h_timestamp := 2000\<rparr>
   \<and> updateJobInHistory ''j1'' completed 2000 fullHistory ! 1 = fullHistory ! 1
   \<and> length (updateJobInHistory ''j1'' completed 2000 fullHistory) = 50
   \<and> map h_id mixedHistory = [''j2'', ''j1'', ''j1'']
   \<and> ''j1'' \<in> set (map h_id mixedHistory)
   \<and> findIndex ''j1'' mixedHistory = Some 1
   \<and> length (updateJobInHistory ''j1'' completed 2000 mixedHistory) = 3
   \<and> updateJobInHistory ''j1'' completed 2000 mixedHistory ! 0 = historyItem job2 processing 7
   \<and> updateJobInHistory ''j1'' completed 2000 mixedHistory ! 1 = historyItem job1 completed 2000
   \<and> updateJobInHistory ''j1'' completed 2000 mixedHistory ! 2 = historyItem job1 processing 3
   \<and> completeJob (okEnv 7) = None \<and> failJob (okEnv 7) = Inr True
   \<and> jobHistory dispatchedState = Some [historyItem job1 processing 1000]
   \<and> historyOrEmpty (jobHistory (fst (handleJobSuccess (okEnv 7) 7 ''j1'' dispatchedState))) =
       [historyItem job1 completed 1000]
   \<and> historyOrEmpty (jobHistory (fst (handleJobFailure (okEnv 7) (Some 7) ''j1'' ''boom''
        dispatchedState))) = [historyItem job1 failed_status 1000]"
proof -
  have l: "length fullHistory = 50" by (simp add: fullHistory_def)
  have e: "fullHistory = historyItem job1 processing 5 # replicate 49 (historyItem job1 processing 5)"
    unfolding fullHistory_def by (subst replicate_Suc[symmetric]) simp
  have f: "findIndex ''j1'' fullHistory = Some 0"
    by (subst e) (simp add: historyItem_def job1_def)
  note t = history_capacity_eviction_update[where h = fullHistory
      and ops = "[AddJob job2 processing 1000, UpdateJob ''j2'' completed 2000,
        AddJob job1 processing 3000]" and job = job2 and st = processing and t = 1000
      and jobId = "''j1''" and st' = completed and t' = 2000]
  from t l have p1: "length (runHistoryOps [AddJob job2 processing 1000,
        UpdateJob ''j2'' completed 2000, AddJob job1 processing 3000] fullHistory) \<le> 50"
    by simp
  from t l have p2: "addJobToHistory job2 processing 1000 fullHistory =
       historyItem job2 processing 1000 # butlast fullHistory"
    by blast
  from t have p3: "\<forall>k<length fullHistory.
      updateJobInHistory ''j1'' completed 2000 fullHistory ! k =
        (if findIndex ''j1'' fullHistory = Some k
         then (fullHistory ! k)\<lparr>h_status := completed, h_timestamp := 2000\<rparr>
         else fullHistory ! k)"
    by blast
  from p3 l f have p4: "updateJobInHistory ''j1'' completed 2000 fullHistory ! 0 =
       (fullHistory ! 0)\<lparr>h_status := completed, h_timestamp := 2000\<rparr>"
    by simp
  from p3 l f have p5: "updateJobInHistory ''j1'' completed 2000 fullHistory ! 1 = fullHistory ! 1"
    by simp
  from t l have p6: "length (updateJobInHistory ''j1'' completed 2000 fullHistory) = 50"
    by simp
  note u = history_capacity_eviction_update[where h = mixedHistory and jobId = "''j1''"
      and st' = completed and t' = 2000 and e = "okEnv 7" and tabId = 7 and s = dispatchedState
      and tid = "Some 7" and msg = "''boom''"]
  have ml: "length mixedHistory = 3" by (simp add: mixedHistory_def)
  have mi: "''j1'' \<in> set (map h_id mixedHistory)" by (simp add: mixedHistory_ids)
  from u have q0: "\<forall>i. findIndex ''j1'' mixedHistory = Some i \<longleftrightarrow>
      i < length mixedHistory \<and> h_id (mixedHistory ! i) = ''j1''
        \<and> (\<forall>k<i. h_id (mixedHistory ! k) \<noteq> ''j1'')"
    by blast
  have q1: "findIndex ''j1'' mixedHistory = Some 1"
    using q0 by (simp add: mixedHistory_def historyItem_def job1_def job2_def)
  from u have q2: "\<forall>k<length mixedHistory.
      updateJobInHistory ''j1'' completed 2000 mixedHistory ! k =
        (if h_id (mixedHistory ! k) = ''j1'' \<and> (\<forall>j<k. h_id (mixedHistory ! j) \<noteq> ''j1'')
         then (mixedHistory ! k)\<lparr>h_status := completed, h_timestamp := 2000\<rparr>
         else mixedHistory ! k)"
    by blast
  from u have q5: "\<forall>k<length mixedHistory.
      updateJobInHistory ''j1'' completed 2000 mixedHistory ! k =
        (if findIndex ''j1'' mixedHistory = Some k
         then (mixedHistory ! k)\<lparr>h_status := completed, h_timestamp := 2000\<rparr>
         else mixedHistory ! k)"
    by blast
  from u have q3: "length (updateJobInHistory ''j1'' completed 2000 mixedHistory) = length mixedHistory"
    by blast
  have n0: "updateJobInHistory ''j1'' completed 2000 mixedHistory ! 0 = historyItem job2 processing 7"
    using q2[rule_format, of 0] ml
    by (simp add: mixedHistory_def historyItem_def job1_def job2_def)
  have n1: "updateJobInHistory ''j1'' completed 2000 mixedHistory ! 1 = historyItem job1 completed 2000"
    using q2[rule_format, of 1] ml
    by (simp add: mixedHistory_def historyItem_def job1_def job2_def)
  have n2: "updateJobInHistory ''j1'' completed 2000 mixedHistory ! 2 = historyItem job1 processing 3"
    using q5[rule_format, of 2] ml q1
    by (simp add: mixedHistory_def historyItem_def job1_def job2_def)
  have c: "completeJob (okEnv 7) = None" "failJob (okEnv 7) = Inr True" "now (okEnv 7) = 1000"
    by (simp_all add: okEnv_def)
  from u c have r1: "historyOrEmpty (jobHistory (fst (handleJobSuccess (okEnv 7) 7 ''j1'' dispatchedState))) =
          updateJobInHistory ''j1'' completed (now (okEnv 7)) (historyOrEmpty (jobHistory dispatchedState))"
    by blast
  from u c have r2: "historyOrEmpty (jobHistory (fst (handleJobFailure (okEnv 7) (Some 7) ''j1'' ''boom''
        dispatchedState))) =
          updateJobInHistory ''j1'' failed_status (now (okEnv 7)) (historyOrEmpty (jobHistory dispatchedState))"
    by blast
  have r1': "historyOrEmpty (jobHistory (fst (handleJobSuccess (okEnv 7) 7 ''j1'' dispatchedState))) =
       [historyItem job1 completed 1000]"
    unfolding r1
    by (simp add: c dispatchedState_fields historyOrEmpty_def updateJobInHistory_def historyItem_def job1_def)
  have r2': "historyOrEmpty (jobHistory (fst (handleJobFailure (okEnv 7) (Some 7) ''j1'' ''boom''
        dispatchedState))) = [historyItem job1 failed_status 1000]"
    unfolding r2
    by (simp add: c dispatchedState_fields historyOrEmpty_def updateJobInHistory_def historyItem_def job1_def)
  show ?thesis
    using l f p1 p2 p4 p5 p6 mi q1 q3 ml n0 n1 n2 c(1,2) r1' r2'
    by (simp add: mixedHistory_ids dispatchedState_fields)
qed

subsection \<open>C9: one history record per job id\<close>

text \<open>
  Claim C9 says that a job id gets at most one record in the \<open>processing\<close> state,
  also across local re-dispatches. \<open>processJob\<close> calls \<open>addJobToHistory\<close> on
  every dispatch and nothing looks for a record of the same id: after one removal of the
  tab and the re-dispatch the history holds two \<open>processing\<close> records of
  \<open>j1\<close>, and the success of the second dispatch updates only the newer one.
\<close>

theorem redispatch_second_processing_record:
  "historyIds dispatchedState = [''j1'']
   \<and> historyStatuses dispatchedState = [processing]
   \<and> activeJobs dispatchedState 7 = Some job1
   \<and> historyIds crashedOnce = [''j1'', ''j1'']
   \<and> historyStatuses crashedOnce = [processing, processing]
   \<and> historyIds (fst (handleJobSuccess (okEnv 8) 8 ''j1'' crashedOnce)) = [''j1'', ''j1'']
   \<and> historyStatuses (fst (handleJobSuccess (okEnv 8) 8 ''j1'' crashedOnce)) =
       [completed, processing]"
proof -
  have c: "completeJob (okEnv 8) = None" by (simp add: okEnv_def)
  show ?thesis
    by (simp add: historyIds_def historyStatuses_def dispatchedState_fields crashedOnce_history
        jobHistory_handleJobSuccess[OF c] storeUpdatedHistory_def updateJobInHistory_def
        historyOrEmpty_def historyItem_def job1_def)
qed

text \<open>
  Claim C9 as amended: every dispatch of a job, a local re-dispatch after a tab removal
  included, puts a new record of the job's id in front of the history (and keeps the
  first 49 of the old ones), so a job id can have several records; when the dispatch is
  delivered that record is \<open>processing\<close> and the older records are unchanged.
  The later terminal update, by \<open>handleJobSuccess\<close> or \<open>handleJobFailure\<close>
  with a report that goes through, keeps the length of the list and changes only the
  first, newest record with that id; every other record, an older \<open>processing\<close>
  record of the same id included, stays as it is.
\<close>

theorem dispatch_prepends_history_record:
  "historyIds (fst (processJob e job s)) = take 50 (j_id job # historyIds s)
   \<and> (delivered e job t \<longrightarrow>
        jobHistory (fst (processJob e job s)) =
          Some (addJobToHistory job processing (now e) (historyOrEmpty (jobHistory s))))
   \<and> (activeJobs s tabId = Some job
        \<and> numberOrZero (tabClosureRetries s (j_id job)) < MAX_TAB_CLOSURE_RETRIES \<longrightarrow>
        historyIds (fst (onRemoved e tabId s)) = take 50 (j_id job # historyIds s)
        \<and> (delivered e job t \<longrightarrow>
             jobHistory (fst (onRemoved e tabId s)) =
               Some (addJobToHistory job processing (now e) (historyOrEmpty (jobHistory s)))))
   \<and> (completeJob e' = None \<longrightarrow>
        length (historyOrEmpty (jobHistory (fst (handleJobSuccess e' tabId' jobId s')))) =
          length (historyOrEmpty (jobHistory s'))
        \<and> (\<forall>k<length (historyOrEmpty (jobHistory s')).
              historyOrEmpty (jobHistory (fst (handleJobSuccess e' tabId' jobId s'))) ! k =
                (if h_id (historyOrEmpty (jobHistory s') ! k) = jobId
                    \<and> (\<forall>j<k. h_id (historyOrEmpty (jobHistory s') ! j) \<noteq> jobId)
                 then (historyOrEmpty (jobHistory s') ! k)
                        \<lparr>h_status := completed, h_timestamp := now e'\<rparr>
                 else historyOrEmpty (jobHistory s') ! k)))
   \<and> (\<forall>w. failJob e' = Inr w \<longrightarrow>
        length (historyOrEmpty (jobHistory (fst (handleJobFailure e' tid jobId msg s')))) =
          length (historyOrEmpty (jobHistory s'))
        \<and> (\<forall>k<length (historyOrEmpty (jobHistory s')).
              historyOrEmpty (jobHistory (fst (handleJobFailure e' tid jobId msg s'))) ! k =
                (if h_id (historyOrEmpty (jobHistory s') ! k) = jobId
                    \<and> (\<forall>j<k. h_id (historyOrEmpty (jobHistory s') ! j) \<noteq> jobId)
                 then (historyOrEmpty (jobHistory s') ! k)
                        \<lparr>h_status := failed_status, h_timestamp := now e'\<rparr>
                 else historyOrEmpty (jobHistory s') ! k)))"
proof -
  have c1: "historyIds (fst (processJob e job s)) = take 50 (j_id job # historyIds s)"
    by (rule historyIds_processJob)
  have c2: "delivered e job t \<longrightarrow> jobHistory (fst (processJob e job s)) =
          Some (addJobToHistory job processing (now e) (historyOrEmpty (jobHistory s)))"
    by (simp add: jobHistory_processJob_delivered)
  have c3: "activeJobs s tabId = Some job
        \<and> numberOrZero (tabClosureRetries s (j_id job)) < MAX_TAB_CLOSURE_RETRIES \<longrightarrow>
        historyIds (fst (onRemoved e tabId s)) = take 50 (j_id job # historyIds s)
        \<and> (delivered e job t \<longrightarrow>
             jobHistory (fst (onRemoved e tabId s)) =
               Some (addJobToHistory job processing (now e) (historyOrEmpty (jobHistory s))))"
  proof
    assume a: "activeJobs s tabId = Some job
          \<and> numberOrZero (tabClosureRetries s (j_id job)) < MAX_TAB_CLOSURE_RETRIES"
    obtain s2 pre where r: "onRemoved e tabId s =
         (fst (processJob e job s2), pre @ [Log WARNING, Sleep 2000] @ snd (processJob e job s2))"
      and f: "jobHistory s2 = jobHistory s"
      using onRemoved_retry[of s tabId job e] a by metis
    have i: "historyIds s2 = historyIds s" using f by (simp add: historyIds_def)
    have "historyIds (fst (onRemoved e tabId s)) = take 50 (j_id job # historyIds s)"
      by (simp add: r historyIds_processJob i)
    moreover have "delivered e job t \<longrightarrow> jobHistory (fst (onRemoved e tabId s)) =
            Some (addJobToHistory job processing (now e) (historyOrEmpty (jobHistory s)))"
      by (simp add: r jobHistory_processJob_delivered f)
    ultimately show "historyIds (fst (onRemoved e tabId s)) = take 50 (j_id job # historyIds s)
        \<and> (delivered e job t \<longrightarrow>
             jobHistory (fst (onRemoved e tabId s)) =
               Some (addJobToHistory job processing (now e) (historyOrEmpty (jobHistory s))))"
      by simp
  qed
  have c4: "completeJob e' = None \<longrightarrow>
        length (historyOrEmpty (jobHistory (fst (handleJobSuccess e' tabId' jobId s')))) =
          length (historyOrEmpty (jobHistory s'))
        \<and> (\<forall>k<length (historyOrEmpty (jobHistory s')).
              historyOrEmpty (jobHistory (fst (handleJobSuccess e' tabId' jobId s'))) ! k =
                (if h_id (historyOrEmpty (jobHistory s') ! k) = jobId
                    \<and> (\<forall>j<k. h_id (historyOrEmpty (jobHistory s') ! j) \<noteq> jobId)
                 then (historyOrEmpty (jobHistory s') ! k)
                        \<lparr>h_status := completed, h_timestamp := now e'\<rparr>
                 else historyOrEmpty (jobHistory s') ! k))"
  proof
    assume c: "completeJob e' = None"
    have h: "historyOrEmpty (jobHistory (fst (handleJobSuccess e' tabId' jobId s'))) =
        updateJobInHistory jobId completed (now e') (historyOrEmpty (jobHistory s'))"
      by (simp add: history_handleJobSuccess c)
    show "length (historyOrEmpty (jobHistory (fst (handleJobSuccess e' tabId' jobId s')))) =
          length (historyOrEmpty (jobHistory s'))
        \<and> (\<forall>k<length (historyOrEmpty (jobHistory s')).
              historyOrEmpty (jobHistory (fst (handleJobSuccess e' tabId' jobId s'))) ! k =
                (if h_id (historyOrEmpty (jobHistory s') ! k) = jobId
                    \<and> (\<forall>j<k. h_id (historyOrEmpty (jobHistory s') ! j) \<noteq> jobId)
                 then (historyOrEmpty (jobHistory s') ! k)
                        \<lparr>h_status := completed, h_timestamp := now e'\<rparr>
                 else historyOrEmpty (jobHistory s') ! k))"
      unfolding h using updateJobInHistory_nth length_updateJobInHistory by blast
  qed
  have c5: "\<forall>w. failJob e' = Inr w \<longrightarrow>
        length (historyOrEmpty (jobHistory (fst (handleJobFailure e' tid jobId msg s')))) =
          length (historyOrEmpty (jobHistory s'))
        \<and> (\<forall>k<length (historyOrEmpty (jobHistory s')).
              historyOrEmpty (jobHistory (fst (handleJobFailure e' tid jobId msg s'))) ! k =
                (if h_id (historyOrEmpty (jobHistory s') ! k) = jobId
                    \<and> (\<forall>j<k. h_id (historyOrEmpty (jobHistory s') ! j) \<noteq> jobId)
                 then (historyOrEmpty (jobHistory s') ! k)
                        \<lparr>h_status := failed_status, h_timestamp := now e'\<rparr>
                 else historyOrEmpty (jobHistory s') ! k))"
  proof (intro allI impI)
    fix w
    assume c: "failJob e' = Inr w"
    have h: "historyOrEmpty (jobHistory (fst (handleJobFailure e' tid jobId msg s'))) =
        updateJobInHistory jobId failed_status (now e') (historyOrEmpty (jobHistory s'))"
      by (simp add: history_handleJobFailure c)
    show "length (historyOrEmpty (jobHistory (fst (handleJobFailure e' tid jobId msg s')))) =
          length (historyOrEmpty (jobHistory s'))
        \<and> (\<forall>k<length (historyOrEmpty (jobHistory s')).
              historyOrEmpty (jobHistory (fst (handleJobFailure e' tid jobId msg s'))) ! k =
                (if h_id (historyOrEmpty (jobHistory s') ! k) = jobId
                    \<and> (\<forall>j<k. h_id (historyOrEmpty (jobHistory s') ! j) \<noteq> jobId)
                 then (historyOrEmpty (jobHistory s') ! k)
                        \<lparr>h_status := failed_status, h_timestamp := now e'\<rparr>
                 else historyOrEmpty (jobHistory s') ! k))"
      unfolding h using updateJobInHistory_nth length_updateJobInHistory by blast
  qed
  from c1 c2 c3 c4 c5 show ?thesis by (intro conjI)
qed

theorem dispatch_prepends_history_record_witness:
  "delivered (okEnv 8) job1 8
   \<and> activeJobs dispatchedState 7 = Some job1
   \<and> numberOrZero (tabClosureRetries dispatchedState (j_id job1)) < MAX_TAB_CLOSURE_RETRIES
   \<and> historyIds dispatchedState = [''j1'']
   \<and> historyIds (fst (onRemoved (okEnv 8) 7 dispatchedState)) = [''j1'', ''j1'']
   \<and> historyIds (fst (processJob (okEnv 8) job1 dispatchedState)) = [''j1'', ''j1'']
   \<and> jobHistory (fst (onRemoved (okEnv 8) 7 dispatchedState)) =
       Some [historyItem job1 processing 1000, historyItem job1 processing 1000]
   \<and> completeJob (okEnv 8) = None \<and> failJob (okEnv 8) = Inr True
   \<and> historyOrEmpty (jobHistory crashedOnce) =
       [historyItem job1 processing 1000, historyItem job1 processing 1000]
   \<and> length (historyOrEmpty (jobHistory (fst (handleJobSuccess (okEnv 8) 8 ''j1'' crashedOnce)))) = 2
   \<and> historyOrEmpty (jobHistory (fst (handleJobSuccess (okEnv 8) 8 ''j1'' crashedOnce))) ! 0 =
       historyItem job1 completed 1000
   \<and> historyOrEmpty (jobHistory (fst (handleJobSuccess (okEnv 8) 8 ''j1'' crashedOnce))) ! 1 =
       historyItem job1 processing 1000
   \<and> historyOrEmpty (jobHistory (fst (handleJobFailure (okEnv 8) (Some 8) ''j1'' ''boom''
        crashedOnce))) ! 0 = historyItem job1 failed_status 1000
   \<and> historyOrEmpty (jobHistory (fst (handleJobFailure (okEnv 8) (Some 8) ''j1'' ''boom''
        crashedOnce))) ! 1 = historyItem job1 processing 1000"
proof -
  have d: "delivered (okEnv 8) job1 8" by (rule okEnv_delivered) simp
  have a: "activeJobs dispatchedState 7 = Some job1" by (simp add: dispatchedState_fields)
  have b: "numberOrZero (tabClosureRetries dispatchedState (j_id job1)) < MAX_TAB_CLOSURE_RETRIES"
    by (simp add: dispatchedState_fields numberOrZero_def MAX_TAB_CLOSURE_RETRIES_def)
  have i: "historyIds dispatchedState = [''j1'']"
    by (simp add: historyIds_def dispatchedState_fields historyOrEmpty_def historyItem_def job1_def)
  have c: "completeJob (okEnv 8) = None" "failJob (okEnv 8) = Inr True" "now (okEnv 8) = 1000"
    by (simp_all add: okEnv_def)
  have hc: "historyOrEmpty (jobHistory crashedOnce) =
       [historyItem job1 processing 1000, historyItem job1 processing 1000]"
    by (simp add: crashedOnce_history historyOrEmpty_def)
  note t = dispatch_prepends_history_record[where e = "okEnv 8" and job = job1
      and s = dispatchedState and t = 8 and tabId = 7 and e' = "okEnv 8" and tabId' = 8
      and jobId = "''j1''" and s' = crashedOnce and tid = "Some 8" and msg = "''boom''"]
  from t a b d have p1: "historyIds (fst (onRemoved (okEnv 8) 7 dispatchedState)) =
      take 50 (j_id job1 # historyIds dispatchedState)"
    and p2: "historyIds (fst (processJob (okEnv 8) job1 dispatchedState)) =
      take 50 (j_id job1 # historyIds dispatchedState)"
    and p3: "jobHistory (fst (onRemoved (okEnv 8) 7 dispatchedState)) =
      Some (addJobToHistory job1 processing (now (okEnv 8))
        (historyOrEmpty (jobHistory dispatchedState)))"
    by blast+
  from t c(1) have s1: "length (historyOrEmpty (jobHistory (fst (handleJobSuccess (okEnv 8) 8 ''j1'' crashedOnce)))) =
          length (historyOrEmpty (jobHistory crashedOnce))"
    and s2: "\<forall>k<length (historyOrEmpty (jobHistory crashedOnce)).
              historyOrEmpty (jobHistory (fst (handleJobSuccess (okEnv 8) 8 ''j1'' crashedOnce))) ! k =
                (if h_id (historyOrEmpty (jobHistory crashedOnce) ! k) = ''j1''
                    \<and> (\<forall>j<k. h_id (historyOrEmpty (jobHistory crashedOnce) ! j) \<noteq> ''j1'')
                 then (historyOrEmpty (jobHistory crashedOnce) ! k)
                        \<lparr>h_status := completed, h_timestamp := now (okEnv 8)\<rparr>
                 else historyOrEmpty (jobHistory crashedOnce) ! k)"
    by blast+
  from t c(2) have f2: "\<forall>k<length (historyOrEmpty (jobHistory crashedOnce)).
              historyOrEmpty (jobHistory (fst (handleJobFailure (okEnv 8) (Some 8) ''j1'' ''boom'' crashedOnce))) ! k =
                (if h_id (historyOrEmpty (jobHistory crashedOnce) ! k) = ''j1''
                    \<and> (\<forall>j<k. h_id (historyOrEmpty (jobHistory crashedOnce) ! j) \<noteq> ''j1'')
                 then (historyOrEmpty (jobHistory crashedOnce) ! k)
                        \<lparr>h_status := failed_status, h_timestamp := now (okEnv 8)\<rparr>
                 else historyOrEmpty (jobHistory crashedOnce) ! k)"
    by blast
  have n0: "historyOrEmpty (jobHistory (fst (handleJobSuccess (okEnv 8) 8 ''j1'' crashedOnce))) ! 0 =
       historyItem job1 completed 1000"
    using s2[rule_format, of 0] by (simp add: hc c(3) historyItem_def job1_def)
  have n1: "historyOrEmpty (jobHistory (fst (handleJobSuccess (okEnv 8) 8 ''j1'' crashedOnce))) ! 1 =
       historyItem job1 processing 1000"
    using s2[rule_format, of 1] by (simp add: hc c(3) historyItem_def job1_def)
  have m0: "historyOrEmpty (jobHistory (fst (handleJobFailure (okEnv 8) (Some 8) ''j1'' ''boom''
        crashedOnce))) ! 0 = historyItem job1 failed_status 1000"
    using f2[rule_format, of 0] by (simp add: hc c(3) historyItem_def job1_def)
  have m1: "historyOrEmpty (jobHistory (fst (handleJobFailure (okEnv 8) (Some 8) ''j1'' ''boom''
        crashedOnce))) ! 1 = historyItem job1 processing 1000"
    using f2[rule_format, of 1] by (simp add: hc c(3) historyItem_def job1_def)
  have q: "historyIds (fst (onRemoved (okEnv 8) 7 dispatchedState)) = [''j1'', ''j1'']"
    "historyIds (fst (processJob (okEnv 8) job1 dispatchedState)) = [''j1'', ''j1'']"
    "jobHistory (fst (onRemoved (okEnv 8) 7 dispatchedState)) =
       Some [historyItem job1 processing 1000, historyItem job1 processing 1000]"
    using p1 p2 p3 i
    by (simp_all add: job1_fields c(3) dispatchedState_fields addJobToHistory_def historyOrEmpty_def)
  have s1': "length (historyOrEmpty (jobHistory (fst (handleJobSuccess (okEnv 8) 8 ''j1'' crashedOnce)))) = 2"
    using s1 by (simp add: hc)
  show ?thesis
    using a b d i q c(1,2) hc s1' n0 n1 m0 m1 by simp
qed

subsection \<open>C10: a poll tick when polling is off or not configured\<close>

text \<open>
  Claim C10: when \<open>isRunning\<close> is false or absent, or the API key or the API URL
  is absent or empty, or the client id is absent or empty, \<open>pollForJob\<close> returns
  with the state unchanged, having called neither the backend nor
  \<open>chrome.tabs.create\<close>; at most it has written one log line. The function has no
  error result: every path of \<open>pollForJob\<close> ends inside its \<open>try\<close> or its
  \<open>catch\<close> block.
\<close>

theorem poll_noop_when_disabled:
  assumes "\<not> truthyBool (isRunning s) \<or> \<not> truthyString (apiKey s)
           \<or> \<not> truthyString (apiUrl s) \<or> \<not> truthyString (clientId s)"
  shows "fst (pollForJob e s) = s
    \<and> snd (pollForJob e s) \<in> {[], [Log WARNING], [Log ERROR]}
    \<and> filter isBackendCall (snd (pollForJob e s)) = []
    \<and> filter isTabsCreate (snd (pollForJob e s)) = []"
  using assms by (auto simp: pollForJob_def truthyString_def split: option.splits)

theorem poll_noop_when_disabled_witness:
  "\<not> truthyBool (isRunning (installedState\<lparr>isRunning := Some False\<rparr>))
   \<and> pollForJob (okEnv 7) (installedState\<lparr>isRunning := Some False\<rparr>) =
       (installedState\<lparr>isRunning := Some False\<rparr>, [])
   \<and> \<not> truthyString (apiKey (installedState\<lparr>apiKey := None\<rparr>))
   \<and> pollForJob (okEnv 7) (installedState\<lparr>apiKey := None\<rparr>) =
       (installedState\<lparr>apiKey := None\<rparr>, [Log WARNING])
   \<and> \<not> truthyString (clientId (installedState\<lparr>clientId := Some []\<rparr>))
   \<and> fst (pollForJob (okEnv 7) (installedState\<lparr>clientId := Some []\<rparr>)) =
       installedState\<lparr>clientId := Some []\<rparr>
   \<and> filter isBackendCall (snd (pollForJob (okEnv 7) (installedState\<lparr>clientId := Some []\<rparr>))) = []"
  using poll_noop_when_disabled[of "installedState\<lparr>isRunning := Some False\<rparr>" "okEnv 7"]
    poll_noop_when_disabled[of "installedState\<lparr>apiKey := None\<rparr>" "okEnv 7"]
    poll_noop_when_disabled[of "installedState\<lparr>clientId := Some []\<rparr>" "okEnv 7"]
  by (simp add: truthyBool_def truthyString_def pollForJob_def installedState_def)

end
